theory Spec2Isabelle
  imports Complex_Main "HOL-Library.AList"
begin

text \<open>
  A shallow embedding of the ingestion, validation and result pipeline of the vessel
  dashboard, and the properties of it that are proved:
  \<^item> the request layer of the API service: \<open>API_CONFIG\<close>, \<open>ApiCache\<close>, \<open>ApiError\<close>,
    \<open>retryRequest\<close>, \<open>validateVesselData\<close> and \<open>fetchCSV\<close>;
  \<^item> the zone check of \<open>api/checkZone.ts\<close> (\<open>isValidCoordinate\<close>,
    \<open>generateMockViolation\<close>, \<open>formatAPIResponse\<close>, \<open>formatErrorResponse\<close>,
    \<open>checkZone\<close>) and the second \<open>checkZone\<close> of the repository, written for a service
    that takes one coordinate;
  \<^item> the export of the download utilities: \<open>convertToCSV\<close>, \<open>downloadData\<close>,
    \<open>downloadFile\<close>;
  \<^item> the zone violation page: \<open>mapApiResponseToLocalFormat\<close>, \<open>handleExport\<close> and the
    reading of the CSV text in \<open>handleZoneCheck\<close>;
  \<^item> the normalisation of AIS rows: \<open>processVesselData\<close> and \<open>determineBehavior\<close>.
\<close>

section \<open>JavaScript values\<close>

text \<open>
  The dashboard is TypeScript; at run time its data are JavaScript values. A number is an
  IEEE double: here \<open>NaN\<close>, the two infinities, or a finite number given by its exact
  mathematical value. Comparisons with \<open>NaN\<close> are false, as in the language.
\<close>

datatype jsnum = NaN | NegInf | Fin real | PosInf

fun js_le :: "jsnum \<Rightarrow> jsnum \<Rightarrow> bool" where
  "js_le NaN _ = False"
| "js_le _ NaN = False"
| "js_le NegInf _ = True"
| "js_le _ PosInf = True"
| "js_le (Fin a) (Fin b) = (a \<le> b)"
| "js_le _ _ = False"

definition js_ge :: "jsnum \<Rightarrow> jsnum \<Rightarrow> bool" where
  "js_ge a b = js_le b a"

fun js_lt :: "jsnum \<Rightarrow> jsnum \<Rightarrow> bool" where
  "js_lt NaN _ = False"
| "js_lt _ NaN = False"
| "js_lt (Fin a) (Fin b) = (a < b)"
| "js_lt NegInf NegInf = False"
| "js_lt NegInf _ = True"
| "js_lt PosInf _ = False"
| "js_lt _ PosInf = True"
| "js_lt _ NegInf = False"

definition js_gt :: "jsnum \<Rightarrow> jsnum \<Rightarrow> bool" where
  "js_gt a b = js_lt b a"

definition isNaN :: "jsnum \<Rightarrow> bool" where
  "isNaN n = (n = NaN)"

text \<open>
  A value of type \<open>any\<close>. An object is the list of its own properties in insertion
  order; a property read takes the first binding of the key.
\<close>

datatype jsval =
    JUndefined
  | JNull
  | JBool bool
  | JNum jsnum
  | JStr string
  | JArr "jsval list"
  | JObj "(string \<times> jsval) list"

fun js_truthy :: "jsval \<Rightarrow> bool" where
  "js_truthy JUndefined = False"
| "js_truthy JNull = False"
| "js_truthy (JBool b) = b"
| "js_truthy (JNum n) = (n \<noteq> NaN \<and> n \<noteq> Fin 0)"
| "js_truthy (JStr s) = (s \<noteq> [])"
| "js_truthy (JArr _) = True"
| "js_truthy (JObj _) = True"

fun js_typeof :: "jsval \<Rightarrow> string" where
  "js_typeof JUndefined = ''undefined''"
| "js_typeof JNull = ''object''"
| "js_typeof (JBool _) = ''boolean''"
| "js_typeof (JNum _) = ''number''"
| "js_typeof (JStr _) = ''string''"
| "js_typeof (JArr _) = ''object''"
| "js_typeof (JObj _) = ''object''"

definition js_or :: "jsval \<Rightarrow> jsval \<Rightarrow> jsval" where
  \<comment> \<open>\<open>a || b\<close>\<close>
  "js_or a b = (if js_truthy a then a else b)"

definition js_nullish :: "jsval \<Rightarrow> bool" where
  "js_nullish v = (v = JUndefined \<or> v = JNull)"

definition js_coalesce :: "jsval \<Rightarrow> jsval \<Rightarrow> jsval" where
  \<comment> \<open>\<open>a ?? b\<close>\<close>
  "js_coalesce a b = (if js_nullish a then b else a)"

subsection \<open>Errors\<close>

record api_error =
  message :: string
  status :: "int option"
  code :: "string option"
  path :: "string option"
  suggestion :: string

datatype js_error =
    Error string
  | TypeError string
  | ApiError api_error
  | NonError jsval

fun error_message :: "js_error \<Rightarrow> string" where
  \<comment> \<open>\<open>error instanceof Error ? error.message : 'Unknown error'\<close>\<close>
  "error_message (Error m) = m"
| "error_message (TypeError m) = m"
| "error_message (ApiError e) = message e"
| "error_message (NonError _) = ''Unknown error''"

definition getDefaultSuggestion :: "int option \<Rightarrow> string" where
  "getDefaultSuggestion st =
     (if st = Some 400 then ''Please check your input data and try again''
      else if st = Some 401 then ''Please log in and try again''
      else if st = Some 403 then ''You don't have permission to perform this action''
      else if st = Some 404 then ''The requested resource could not be found''
      else if st = Some 429 then ''Please wait a moment and try again''
      else if st = Some 500 then
        ''This is a server error. Please try again later or contact support if the problem persists''
      else ''Please try again or contact support if the problem persists'')"

definition mkApiError ::
  "string \<Rightarrow> int option \<Rightarrow> string option \<Rightarrow> string option \<Rightarrow> string option \<Rightarrow> api_error" where
  \<comment> \<open>the constructor of \<open>ApiError\<close> (without the time of creation): an absent or empty
      suggestion is replaced by the default\<close>
  "mkApiError msg st cd pth sug =
     \<lparr>message = msg, status = st, code = cd, path = pth,
      suggestion = (case sug of
                      None \<Rightarrow> getDefaultSuggestion st
                    | Some t \<Rightarrow> if t = [] then getDefaultSuggestion st else t)\<rparr>"

subsection \<open>Strings\<close>

text \<open>
  The string operations of the language that the code calls. Characters are bytes; the
  case mappings and the white space are those of ASCII.
\<close>

definition dquote :: char where
  "dquote = CHR 0x22"

definition is_ws :: "char \<Rightarrow> bool" where
  "is_ws c = (c = CHR 0x20 \<or> c = CHR 0x09 \<or> c = CHR 0x0A \<or> c = CHR 0x0D \<or> c = CHR 0x0B \<or> c = CHR 0x0C)"

definition js_trim :: "string \<Rightarrow> string" where
  "js_trim s = rev (dropWhile is_ws (rev (dropWhile is_ws s)))"

fun js_split :: "char \<Rightarrow> string \<Rightarrow> string list" where
  "js_split sep [] = [[]]"
| "js_split sep (c # cs) =
     (if c = sep then [] # js_split sep cs
      else (case js_split sep cs of
              w # ws \<Rightarrow> (c # w) # ws
            | [] \<Rightarrow> [[c]]))"

fun js_join :: "string \<Rightarrow> string list \<Rightarrow> string" where
  "js_join sep [] = []"
| "js_join sep [x] = x"
| "js_join sep (x # y # ys) = x @ sep @ js_join sep (y # ys)"

definition to_lower :: "char \<Rightarrow> char" where
  "to_lower c =
     (case map_of (zip ''ABCDEFGHIJKLMNOPQRSTUVWXYZ'' ''abcdefghijklmnopqrstuvwxyz'') c of
        Some d \<Rightarrow> d | None \<Rightarrow> c)"

definition to_upper :: "char \<Rightarrow> char" where
  "to_upper c =
     (case map_of (zip ''abcdefghijklmnopqrstuvwxyz'' ''ABCDEFGHIJKLMNOPQRSTUVWXYZ'') c of
        Some d \<Rightarrow> d | None \<Rightarrow> c)"

definition toLowerCase :: "string \<Rightarrow> string" where
  "toLowerCase s = map to_lower s"

definition toUpperCase :: "string \<Rightarrow> string" where
  "toUpperCase s = map to_upper s"

definition padStart :: "nat \<Rightarrow> char \<Rightarrow> string \<Rightarrow> string" where
  "padStart n c s = replicate (n - length s) c @ s"

fun indexOf :: "'a list \<Rightarrow> 'a \<Rightarrow> nat option" where
  \<comment> \<open>\<open>None\<close> is the result \<open>-1\<close>\<close>
  "indexOf [] x = None"
| "indexOf (y # ys) x = (if y = x then Some 0 else map_option Suc (indexOf ys x))"

subsection \<open>Numbers and strings\<close>

definition digit_char :: "nat \<Rightarrow> char" where
  "digit_char d = ''0123456789abcdef'' ! d"

definition digit_val :: "nat \<Rightarrow> char \<Rightarrow> nat option" where
  "digit_val radix c =
     (case indexOf ''0123456789abcdef'' (to_lower c) of
        Some d \<Rightarrow> if d < radix then Some d else None
      | None \<Rightarrow> None)"

definition is_digit :: "char \<Rightarrow> bool" where
  "is_digit c = (digit_val 10 c \<noteq> None)"

fun show_nat :: "nat \<Rightarrow> string" where
  "show_nat n = (if n < 10 then [digit_char n] else show_nat (n div 10) @ [digit_char (n mod 10)])"

declare show_nat.simps [simp del]

fun frac_digits :: "nat \<Rightarrow> real \<Rightarrow> string" where
  "frac_digits 0 f = []"
| "frac_digits (Suc n) f =
     (if f = 0 then []
      else digit_char (nat \<lfloor>f * 10\<rfloor>) # frac_digits n (f * 10 - of_int \<lfloor>f * 10\<rfloor>))"

definition show_real :: "real \<Rightarrow> string" where
  "show_real r =
     show_nat (nat \<lfloor>r\<rfloor>) @
     (if r = of_int \<lfloor>r\<rfloor> then [] else ''.'' @ frac_digits 20 (r - of_int \<lfloor>r\<rfloor>))"

text \<open>
  \<open>Number::toString\<close>: the decimal digits of the number. This is what the language prints
  for an integer below \<open>10\<^sup>2\<^sup>1\<close> and for a number between \<open>10\<^sup>-\<^sup>6\<close> and
  \<open>10\<^sup>2\<^sup>1\<close> that has a short decimal expansion; the exponent forms are not modelled.
\<close>

fun js_num_to_string :: "jsnum \<Rightarrow> string" where
  "js_num_to_string NaN = ''NaN''"
| "js_num_to_string PosInf = ''Infinity''"
| "js_num_to_string NegInf = ''-Infinity''"
| "js_num_to_string (Fin r) = (if r < 0 then ''-'' @ show_real (- r) else show_real r)"

fun digits_val :: "nat \<Rightarrow> nat \<Rightarrow> string \<Rightarrow> nat option" where
  \<comment> \<open>the value of a digit string in a radix, from an accumulator\<close>
  "digits_val radix acc [] = Some acc"
| "digits_val radix acc (c # cs) =
     (case digit_val radix c of
        None \<Rightarrow> None
      | Some d \<Rightarrow> digits_val radix (acc * radix + d) cs)"

definition parse_radix :: "nat \<Rightarrow> string \<Rightarrow> jsnum" where
  "parse_radix radix s =
     (if s = [] then NaN
      else case digits_val radix 0 s of None \<Rightarrow> NaN | Some n \<Rightarrow> Fin (real n))"

definition parse_exponent :: "string \<Rightarrow> int option" where
  \<comment> \<open>what follows \<open>e\<close>: an optional sign and at least one digit\<close>
  "parse_exponent s =
     (let (neg, ds) = (case s of
                         c # cs \<Rightarrow> if c = CHR ''-'' then (True, cs)
                                   else if c = CHR ''+'' then (False, cs) else (False, s)
                       | [] \<Rightarrow> (False, s))
      in if ds = [] then None
         else case digits_val 10 0 ds of
                None \<Rightarrow> None
              | Some n \<Rightarrow> Some (if neg then - int n else int n))"

definition scale10 :: "real \<Rightarrow> int \<Rightarrow> real" where
  "scale10 m k = (if 0 \<le> k then m * 10 ^ nat k else m / 10 ^ nat (- k))"

definition parse_unsigned_decimal :: "string \<Rightarrow> jsnum" where
  \<comment> \<open>digits, an optional fraction, an optional exponent; at least one digit before the exponent\<close>
  "parse_unsigned_decimal s =
     (let ip = takeWhile is_digit s;
          r1 = dropWhile is_digit s;
          dot = (r1 \<noteq> [] \<and> hd r1 = CHR ''.'');
          fp = (if dot then takeWhile is_digit (tl r1) else []);
          r2 = (if dot then dropWhile is_digit (tl r1) else r1);
          m = real (the (digits_val 10 0 (ip @ fp))) / 10 ^ length fp
      in if ip = [] \<and> fp = [] then NaN
         else if r2 = [] then Fin m
         else if hd r2 = CHR ''e'' \<or> hd r2 = CHR ''E'' then
           (case parse_exponent (tl r2) of None \<Rightarrow> NaN | Some k \<Rightarrow> Fin (scale10 m k))
         else NaN)"

definition parse_unsigned :: "string \<Rightarrow> jsnum" where
  "parse_unsigned s = (if s = ''Infinity'' then PosInf else parse_unsigned_decimal s)"

fun js_neg :: "jsnum \<Rightarrow> jsnum" where
  "js_neg NaN = NaN"
| "js_neg PosInf = NegInf"
| "js_neg NegInf = PosInf"
| "js_neg (Fin r) = Fin (- r)"

text \<open>
  \<open>StringToNumber\<close>: what \<open>Number(s)\<close> is on a string. The text is trimmed; the empty
  text is 0; a text that is not a numeric literal is \<open>NaN\<close>. The value is the exact
  value of the literal (the language rounds it to the nearest double).
\<close>

definition StringToNumber :: "string \<Rightarrow> jsnum" where
  "StringToNumber s =
     (let t = js_trim s in
      if t = [] then Fin 0
      else if take 2 t = ''0x'' \<or> take 2 t = ''0X'' then parse_radix 16 (drop 2 t)
      else if take 2 t = ''0o'' \<or> take 2 t = ''0O'' then parse_radix 8 (drop 2 t)
      else if take 2 t = ''0b'' \<or> take 2 t = ''0B'' then parse_radix 2 (drop 2 t)
      else if hd t = CHR ''-'' then js_neg (parse_unsigned (tl t))
      else if hd t = CHR ''+'' then parse_unsigned (tl t)
      else parse_unsigned t)"

subsection \<open>Conversions and property access\<close>

fun js_own :: "jsval \<Rightarrow> (string \<times> jsval) list" where
  \<comment> \<open>the own enumerable properties, in the order of \<open>Object.keys\<close>\<close>
  "js_own (JObj ps) = ps"
| "js_own (JArr xs) = zip (map show_nat [0..<length xs]) xs"
| "js_own (JStr s) = zip (map show_nat [0..<length s]) (map (\<lambda>c. JStr [c]) s)"
| "js_own _ = []"

definition js_get :: "jsval \<Rightarrow> string \<Rightarrow> jsval" where
  \<comment> \<open>\<open>v[k]\<close> on a value that is neither \<open>null\<close> nor \<open>undefined\<close>\<close>
  "js_get v k =
     (case map_of (js_own v) k of
        Some x \<Rightarrow> x
      | None \<Rightarrow>
          (case v of
             JArr xs \<Rightarrow> if k = ''length'' then JNum (Fin (real (length xs))) else JUndefined
           | JStr s \<Rightarrow> if k = ''length'' then JNum (Fin (real (length s))) else JUndefined
           | _ \<Rightarrow> JUndefined))"

definition js_prop :: "jsval \<Rightarrow> string \<Rightarrow> js_error + jsval" where
  \<comment> \<open>\<open>v.k\<close>: a read on \<open>null\<close> or \<open>undefined\<close> throws\<close>
  "js_prop v k =
     (if v = JNull then Inl (TypeError (''Cannot read properties of null (reading '' @ k @ '')''))
      else if v = JUndefined then
        Inl (TypeError (''Cannot read properties of undefined (reading '' @ k @ '')''))
      else Inr (js_get v k))"

definition js_keys :: "jsval \<Rightarrow> js_error + string list" where
  \<comment> \<open>\<open>Object.keys(v)\<close>\<close>
  "js_keys v =
     (if js_nullish v then Inl (TypeError ''Cannot convert undefined or null to object'')
      else Inr (map fst (js_own v)))"

fun js_String :: "jsval \<Rightarrow> string" where
  "js_String JUndefined = ''undefined''"
| "js_String JNull = ''null''"
| "js_String (JBool b) = (if b then ''true'' else ''false'')"
| "js_String (JNum n) = js_num_to_string n"
| "js_String (JStr s) = s"
| "js_String (JArr xs) =
     js_join '','' (map (\<lambda>x. if x = JUndefined \<or> x = JNull then [] else js_String x) xs)"
| "js_String (JObj _) = ''[object Object]''"

fun js_Number :: "jsval \<Rightarrow> jsnum" where
  "js_Number JUndefined = NaN"
| "js_Number JNull = Fin 0"
| "js_Number (JBool b) = Fin (if b then 1 else 0)"
| "js_Number (JNum n) = n"
| "js_Number (JStr s) = StringToNumber s"
| "js_Number (JArr xs) = StringToNumber (js_String (JArr xs))"
| "js_Number (JObj ps) = StringToNumber (js_String (JObj ps))"

definition json_escape_char :: "char \<Rightarrow> string" where
  "json_escape_char c =
     (if c = dquote then [CHR 0x5C, dquote]
      else if c = CHR 0x5C then [CHR 0x5C, CHR 0x5C]
      else if c = CHR 0x08 then [CHR 0x5C, CHR ''b'']
      else if c = CHR 0x0C then [CHR 0x5C, CHR ''f'']
      else if c = CHR 0x0A then [CHR 0x5C, CHR ''n'']
      else if c = CHR 0x0D then [CHR 0x5C, CHR ''r'']
      else if c = CHR 0x09 then [CHR 0x5C, CHR ''t'']
      else if (of_char c :: nat) < 32 then
        [CHR 0x5C, CHR ''u'', CHR ''0'', CHR ''0'',
         digit_char (of_char c div 16), digit_char (of_char c mod 16)]
      else [c])"

definition json_quote :: "string \<Rightarrow> string" where
  "json_quote s = [dquote] @ concat (map json_escape_char s) @ [dquote]"

fun JSON_stringify :: "jsval \<Rightarrow> string" where
  \<comment> \<open>\<open>JSON.stringify(v)\<close> for a value other than \<open>undefined\<close>; inside an array
      \<open>undefined\<close> is written \<open>null\<close>, and a property that is \<open>undefined\<close> is left out\<close>
  "JSON_stringify JUndefined = ''null''"
| "JSON_stringify JNull = ''null''"
| "JSON_stringify (JBool b) = (if b then ''true'' else ''false'')"
| "JSON_stringify (JNum n) = (case n of Fin r \<Rightarrow> js_num_to_string n | _ \<Rightarrow> ''null'')"
| "JSON_stringify (JStr s) = json_quote s"
| "JSON_stringify (JArr xs) = ''['' @ js_join '','' (map JSON_stringify xs) @ '']''"
| "JSON_stringify (JObj ps) =
     ''{'' @ js_join '',''
        (map (\<lambda>(k, v). json_quote k @ '':'' @ JSON_stringify v)
             (filter (\<lambda>(k, v). v \<noteq> JUndefined) ps)) @ ''}''"

fun map_err :: "('a \<Rightarrow> 'e + 'b) \<Rightarrow> 'a list \<Rightarrow> 'e + 'b list" where
  \<comment> \<open>\<open>xs.map(f)\<close> where \<open>f\<close> may throw: the first throw ends the map\<close>
  "map_err f [] = Inr []"
| "map_err f (x # xs) =
     (case f x of
        Inl e \<Rightarrow> Inl e
      | Inr y \<Rightarrow> (case map_err f xs of Inl e \<Rightarrow> Inl e | Inr ys \<Rightarrow> Inr (y # ys)))"

section \<open>The resilient request layer\<close>

subsection \<open>Configuration\<close>

definition MAX_RETRIES :: int where "MAX_RETRIES = 3"
definition INITIAL_RETRY_DELAY :: int where "INITIAL_RETRY_DELAY = 1000"
definition MAX_RETRY_DELAY :: int where "MAX_RETRY_DELAY = 5000"
definition CACHE_TTL :: int where "CACHE_TTL = 5 * 60 * 1000"
definition DEFAULT_TIMEOUT :: int where "DEFAULT_TIMEOUT = 30000"

subsection \<open>The cache\<close>

text \<open>
  \<open>ApiCache\<close> wraps a \<open>Map\<close> from keys to items \<open>{data, timestamp}\<close>, where
  \<open>timestamp\<close> is the expiry instant in milliseconds. \<open>Date.now()\<close> is the argument
  \<open>now\<close>. A read returns the stored data or \<open>null\<close> (\<open>None\<close>).
\<close>

record 'v cache_item =
  data :: 'v
  timestamp :: int

type_synonym 'v api_cache = "string \<rightharpoonup> 'v cache_item"

definition ApiCache_set :: "string \<Rightarrow> 'v \<Rightarrow> int \<Rightarrow> int \<Rightarrow> 'v api_cache \<Rightarrow> 'v api_cache" where
  "ApiCache_set key d ttl now cache = cache(key \<mapsto> \<lparr>data = d, timestamp = now + ttl\<rparr>)"

definition ApiCache_get :: "string \<Rightarrow> int \<Rightarrow> 'v api_cache \<Rightarrow> 'v option \<times> 'v api_cache" where
  "ApiCache_get key now cache =
     (case cache key of
        None \<Rightarrow> (None, cache)
      | Some item \<Rightarrow>
          if now > timestamp item then (None, cache(key := None))
          else (Some (data item), cache))"

definition ApiCache_clear :: "'v api_cache \<Rightarrow> 'v api_cache" where
  "ApiCache_clear cache = Map.empty"

subsection \<open>Retry with exponential backoff\<close>

text \<open>
  The underlying call \<open>fn\<close> acts on the outside world: it takes the world's state and
  returns its outcome (\<open>Inl\<close> a rejection, \<open>Inr\<close> the value) with the new state.
  \<open>retryRequest\<close> returns, with the outcome and the state, the trace of what it did:
  one \<open>Attempt\<close> per call of \<open>fn\<close> and one \<open>Wait d\<close> per \<open>setTimeout\<close> of \<open>d\<close> ms.
\<close>

datatype event = Attempt | Wait int

function retryRequest ::
  "('s \<Rightarrow> (js_error + 'a) \<times> 's) \<Rightarrow> int \<Rightarrow> int \<Rightarrow> 's \<Rightarrow> (js_error + 'a) \<times> 's \<times> event list" where
  "retryRequest fn retries delay s =
     (case fn s of
        (Inr v, s') \<Rightarrow> (Inr v, s', [Attempt])
      | (Inl err, s') \<Rightarrow>
          (case err of
             ApiError e \<Rightarrow>
               if status e = Some 400 \<or> status e = Some 401 \<or> status e = Some 403 \<or> retries \<le> 0
               then (Inl err, s', [Attempt])
               else (case retryRequest fn (retries - 1) (min (delay * 2) MAX_RETRY_DELAY) s' of
                       (r, s'', evs) \<Rightarrow> (r, s'', Attempt # Wait delay # evs))
           | _ \<Rightarrow> (Inl err, s', [Attempt])))"
  by pat_completeness auto
termination
  by (relation "measure (\<lambda>(fn, retries, delay, s). nat retries)") auto

declare retryRequest.simps [simp del]

definition attempts :: "event list \<Rightarrow> nat" where
  "attempts evs = length (filter (\<lambda>e. e = Attempt) evs)"

fun delays :: "event list \<Rightarrow> int list" where
  "delays [] = []"
| "delays (Attempt # evs) = delays evs"
| "delays (Wait d # evs) = d # delays evs"

subsection \<open>Validation and the CSV fetch\<close>

definition validateVessel :: "jsval \<Rightarrow> bool" where
  \<comment> \<open>the predicate that \<open>validateVesselData\<close> hands to \<open>every\<close>\<close>
  "validateVessel vessel =
     (js_truthy vessel \<and>
      js_typeof (js_get vessel ''latitude'') = ''number'' \<and>
      js_typeof (js_get vessel ''longitude'') = ''number'' \<and>
      js_ge (js_Number (js_get vessel ''latitude'')) (Fin (- 90)) \<and>
      js_le (js_Number (js_get vessel ''latitude'')) (Fin 90) \<and>
      js_ge (js_Number (js_get vessel ''longitude'')) (Fin (- 180)) \<and>
      js_le (js_Number (js_get vessel ''longitude'')) (Fin 180))"

definition validateVesselData :: "jsval \<Rightarrow> bool" where
  "validateVesselData d = (case d of JArr vs \<Rightarrow> list_all validateVessel vs | _ \<Rightarrow> False)"

text \<open>
  \<open>fetchCSV\<close> reads the cache at time \<open>now\<close>; on a miss it requests the rows through
  \<open>retryRequest\<close>, validates them and stores them at time \<open>now'\<close>. \<open>get\<close> is the HTTP
  request, acting on the world's state.
\<close>

definition fetchCSV ::
  "('s \<Rightarrow> (js_error + jsval) \<times> 's) \<Rightarrow> string \<Rightarrow> int \<Rightarrow> int \<Rightarrow> 's \<Rightarrow> jsval api_cache
     \<Rightarrow> (js_error + jsval) \<times> 's \<times> jsval api_cache" where
  "fetchCSV get url now now' s cache =
     (let cacheKey = ''csv-'' @ url;
          (cached, cache1) = ApiCache_get cacheKey now cache
      in if (case cached of None \<Rightarrow> False | Some c \<Rightarrow> js_truthy c) then (Inr (the cached), s, cache1)
         else
           (case retryRequest get MAX_RETRIES INITIAL_RETRY_DELAY s of
              (Inl e, s', evs) \<Rightarrow> (Inl e, s', cache1)
            | (Inr response, s', evs) \<Rightarrow>
                (case js_prop response ''data'' of
                   Inl e \<Rightarrow> (Inl e, s', cache1)
                 | Inr body \<Rightarrow>
                     (case js_prop body ''csv_data'' of
                        Inl e \<Rightarrow> (Inl e, s', cache1)
                      | Inr d \<Rightarrow>
                          if \<not> validateVesselData d then
                            (Inl (ApiError (mkApiError ''Invalid vessel data format in CSV'' (Some 400)
                                    (Some ''INVALID_DATA_FORMAT'') (Some url)
                                    (Some ''Please ensure the CSV file contains required vessel data fields in the correct format''))),
                             s', cache1)
                          else (Inr d, s', ApiCache_set cacheKey d CACHE_TTL now' cache1)))))"

section \<open>The zone check\<close>

text \<open>
  \<open>Math.random()\<close> is the sequence \<open>rnd\<close>: the call number \<open>i\<close> returns \<open>rnd i\<close>, and a
  computation that draws numbers takes the number of the next call and returns it moved on.
  \<open>new Date().toISOString()\<close> is the text \<open>now\<close>.
\<close>

fun map_rand ::
  "(nat \<Rightarrow> jsval \<Rightarrow> nat \<Rightarrow> (js_error + jsval) \<times> nat) \<Rightarrow> nat \<Rightarrow> jsval list \<Rightarrow> nat
     \<Rightarrow> (js_error + jsval list) \<times> nat" where
  \<comment> \<open>\<open>xs.map((x, index) => f)\<close> from \<open>index\<close> on, where \<open>f\<close> draws random numbers and may throw\<close>
  "map_rand f index [] i = (Inr [], i)"
| "map_rand f index (x # xs) i =
     (case f index x i of
        (Inl e, j) \<Rightarrow> (Inl e, j)
      | (Inr y, j) \<Rightarrow>
          (case map_rand f (Suc index) xs j of
             (Inl e, k) \<Rightarrow> (Inl e, k)
           | (Inr ys, k) \<Rightarrow> (Inr (y # ys), k)))"

definition js_count :: "('a \<Rightarrow> bool) \<Rightarrow> 'a list \<Rightarrow> jsval" where
  \<comment> \<open>\<open>xs.filter(p).length\<close>\<close>
  "js_count p xs = JNum (Fin (real (length (filter p xs))))"

record ZoneCheckResponse =
  success :: bool
  total_vessels :: nat
  violations :: jsval
  mpa_violations :: jsval
  eez_violations :: jsval
  processing_time :: jsval
  results :: "jsval list"
  error :: "string option"

subsection \<open>The batch client (api/checkZone.ts)\<close>

definition isValidCoordinate :: "jsval \<Rightarrow> jsval \<Rightarrow> bool" where
  "isValidCoordinate lat lng =
     (let latitude = js_Number lat; longitude = js_Number lng
      in \<not> isNaN latitude \<and> \<not> isNaN longitude \<and>
         js_ge latitude (Fin (- 90)) \<and> js_le latitude (Fin 90) \<and>
         js_ge longitude (Fin (- 180)) \<and> js_le longitude (Fin 180))"

definition generateMockViolation ::
  "(nat \<Rightarrow> real) \<Rightarrow> string \<Rightarrow> jsval \<Rightarrow> nat \<Rightarrow> (js_error + jsval) \<times> nat" where
  "generateMockViolation rnd now vessel i =
     (let zoneType = (if rnd i > 0.5 then ''mpa'' else ''eez'');
          severity = (if rnd (i + 1) > 0.7 then ''high''
                      else if rnd (i + 2) > 0.5 then ''medium'' else ''low'');
          j = (if rnd (i + 1) > 0.7 then i + 2 else i + 3)
      in case js_prop vessel ''vessel_id'' of
           Inl e \<Rightarrow> (Inl e, j)
         | Inr vid \<Rightarrow>
             (Inr (JObj [(''vessel_id'', js_or vid (JStr ''UNKNOWN'')),
                         (''zone_type'', JStr zoneType),
                         (''timestamp'', JStr now),
                         (''location'', JArr [js_get vessel ''longitude'', js_get vessel ''latitude'']),
                         (''severity'', JStr severity),
                         (''details'', JStr (''Mock '' @ toUpperCase zoneType @ '' violation''))]),
              j))"

definition formatResult :: "string \<Rightarrow> jsval \<Rightarrow> js_error + jsval" where
  \<comment> \<open>the function that \<open>formatAPIResponse\<close> maps over \<open>result.results\<close>\<close>
  "formatResult now v =
     (case js_prop v ''vessel_id'' of
        Inl e \<Rightarrow> Inl e
      | Inr vid \<Rightarrow>
          Inr (JObj [(''vessel_id'', vid),
                     (''zone_type'', js_or (js_get v ''zone_type'') (JStr ''mpa'')),
                     (''timestamp'', js_or (js_get v ''timestamp'') (JStr now)),
                     (''location'', js_or (js_get v ''location'') (JArr [JNum (Fin 0), JNum (Fin 0)])),
                     (''severity'', js_or (js_get v ''severity'') (JStr ''low'')),
                     (''details'', js_or (js_get v ''details'') (JStr []))]))"

definition formatAPIResponse :: "string \<Rightarrow> jsval \<Rightarrow> jsval list \<Rightarrow> js_error + ZoneCheckResponse" where
  "formatAPIResponse now result vessels =
     (if \<not> js_truthy (if js_nullish result then JUndefined else js_get result ''results'')
      then Inl (Error ''Invalid API response format'')
      else
        (case js_get result ''results'' of
           JArr rs \<Rightarrow>
             (case map_err (formatResult now) rs of
                Inl e \<Rightarrow> Inl e
              | Inr fs \<Rightarrow>
                  Inr \<lparr>success = True,
                       total_vessels = length vessels,
                       violations = js_or (js_get result ''violations'') (JNum (Fin 0)),
                       mpa_violations = js_or (js_get result ''mpa_violations'') (JNum (Fin 0)),
                       eez_violations = js_or (js_get result ''eez_violations'') (JNum (Fin 0)),
                       processing_time = js_or (js_get result ''processing_time'') (JStr ''0.00s''),
                       results = fs,
                       error = None\<rparr>)
         | _ \<Rightarrow> Inl (TypeError ''result.results.map is not a function'')))"

definition formatErrorResponse ::
  "(nat \<Rightarrow> real) \<Rightarrow> string \<Rightarrow> jsval list \<Rightarrow> js_error \<Rightarrow> js_error + ZoneCheckResponse" where
  "formatErrorResponse rnd now vessels err =
     (case map_rand (\<lambda>index. generateMockViolation rnd now) 0 vessels 0 of
        (Inl e, _) \<Rightarrow> Inl e
      | (Inr mockResults, _) \<Rightarrow>
          Inr \<lparr>success = False,
               total_vessels = length vessels,
               violations = JNum (Fin (real (length mockResults))),
               mpa_violations =
                 js_count (\<lambda>r. js_get r ''zone_type'' = JStr ''mpa'' \<and> js_get r ''severity'' = JStr ''high'')
                   mockResults,
               eez_violations =
                 js_count (\<lambda>r. js_get r ''zone_type'' = JStr ''eez'' \<and> js_get r ''severity'' = JStr ''high'')
                   mockResults,
               processing_time = JStr ''0.00s'',
               results = mockResults,
               error = Some (error_message err)\<rparr>)"

definition vesselRequest :: "jsval \<Rightarrow> nat \<Rightarrow> js_error + jsval" where
  \<comment> \<open>the function that \<open>checkZone\<close> maps over the vessels\<close>
  "vesselRequest vessel index =
     (if \<not> js_truthy vessel \<or>
         \<not> isValidCoordinate (js_get vessel ''latitude'') (js_get vessel ''longitude'')
      then Inl (Error (''Invalid coordinates in vessel data at index '' @ show_nat index))
      else Inr (JObj [(''vessel_id'',
                        js_or (js_get vessel ''vessel_id'')
                          (JStr (''VESSEL'' @ padStart 3 CHR ''0'' (show_nat (index + 1))))),
                      (''latitude'', JNum (js_Number (js_get vessel ''latitude''))),
                      (''longitude'', JNum (js_Number (js_get vessel ''longitude'')))]))"

definition checkZone_try ::
  "(jsval \<Rightarrow> js_error + jsval) \<Rightarrow> string \<Rightarrow> jsval list \<Rightarrow> js_error + ZoneCheckResponse" where
  \<comment> \<open>the \<open>try\<close> block of \<open>checkZone\<close>; \<open>checkZoneViolations\<close> is the call of the API client\<close>
  "checkZone_try checkZoneViolations now vessels =
     (if vessels = [] then Inl (Error ''No vessel data to check'')
      else
        (case map_err (\<lambda>(index, vessel). vesselRequest vessel index) (enumerate 0 vessels) of
           Inl e \<Rightarrow> Inl e
         | Inr vesselRequests \<Rightarrow>
             (case checkZoneViolations (JObj [(''vessels'', JArr vesselRequests)]) of
                Inl e \<Rightarrow> Inl e
              | Inr result \<Rightarrow> formatAPIResponse now result vessels)))"

definition checkZone ::
  "(jsval \<Rightarrow> js_error + jsval) \<Rightarrow> (nat \<Rightarrow> real) \<Rightarrow> string \<Rightarrow> jsval list
     \<Rightarrow> js_error + ZoneCheckResponse" where
  \<comment> \<open>\<open>Inl\<close>: the promise is rejected\<close>
  "checkZone checkZoneViolations rnd now vessels =
     (case checkZone_try checkZoneViolations now vessels of
        Inr r \<Rightarrow> Inr r
      | Inl err \<Rightarrow> formatErrorResponse rnd now vessels err)"

subsection \<open>The single-coordinate client\<close>

text \<open>
  The second \<open>checkZone\<close> of the repository sends the first vessel only and fills in
  every vessel's flags itself. It is named \<open>checkZone_single\<close> here.
\<close>

definition js_and :: "jsval \<Rightarrow> jsval \<Rightarrow> jsval" where
  \<comment> \<open>\<open>a && b\<close>\<close>
  "js_and a b = (if js_truthy a then b else a)"

definition js_assign :: "(string \<times> jsval) list \<Rightarrow> (string \<times> jsval) list \<Rightarrow> (string \<times> jsval) list" where
  \<comment> \<open>the properties of \<open>{...ps, k1: v1, ...}\<close>\<close>
  "js_assign ps kvs = foldl (\<lambda>qs (k, v). AList.update k v qs) ps kvs"

definition mockEntry ::
  "(nat \<Rightarrow> real) \<Rightarrow> jsval \<Rightarrow> nat \<Rightarrow> jsval \<Rightarrow> nat \<Rightarrow> (js_error + jsval) \<times> nat" where
  \<comment> \<open>the body shared by the two \<open>data.map\<close> callbacks, once \<open>inMPA\<close> is known\<close>
  "mockEntry rnd inMPA index vessel i =
     (let inEEZ = (rnd i > 0.5) in
      case js_prop vessel ''behavior'' of
        Inl e \<Rightarrow> (Inl e, i + 1)
      | Inr b \<Rightarrow>
          (let fishing = (b = JStr ''fishing'');
               isFishing = (fishing \<or> rnd (i + 1) > 0.6);
               j = (if fishing then i + 1 else i + 2)
           in (Inr (JObj (js_assign (js_own vessel)
                 [(''vessel_id'',
                     js_or (js_get vessel ''vessel_id'')
                       (JStr (''VESSEL'' @ padStart 3 CHR ''0'' (show_nat (index + 1))))),
                  (''in_mpa'', inMPA),
                  (''in_eez'', JBool inEEZ),
                  (''in_port'', JBool (rnd j > 0.9)),
                  (''illegal_fishing'', js_and inMPA (JBool isFishing)),
                  (''risk_level'',
                     JStr (if js_truthy (js_and inMPA (JBool isFishing)) then ''high''
                           else if inEEZ \<and> isFishing then ''medium'' else ''low''))])),
               j + 1)))"

definition mockFromResult ::
  "(nat \<Rightarrow> real) \<Rightarrow> jsval \<Rightarrow> nat \<Rightarrow> jsval \<Rightarrow> nat \<Rightarrow> (js_error + jsval) \<times> nat" where
  \<comment> \<open>the callback of the \<open>try\<close> block\<close>
  "mockFromResult rnd result index vessel i =
     (if index = 0 then
        (case js_prop result ''is_violation'' of
           Inl e \<Rightarrow> (Inl e, i)
         | Inr v \<Rightarrow> mockEntry rnd v index vessel i)
      else mockEntry rnd (JBool (rnd i > 0.7)) index vessel (i + 1))"

definition mockFallback ::
  "(nat \<Rightarrow> real) \<Rightarrow> nat \<Rightarrow> jsval \<Rightarrow> nat \<Rightarrow> (js_error + jsval) \<times> nat" where
  \<comment> \<open>the callback of the \<open>catch\<close> block\<close>
  "mockFallback rnd index vessel i = mockEntry rnd (JBool (rnd i > 0.7)) index vessel (i + 1)"

definition tally :: "bool \<Rightarrow> string option \<Rightarrow> nat \<Rightarrow> jsval list \<Rightarrow> ZoneCheckResponse" where
  \<comment> \<open>the three counts and the object returned, the same in both blocks\<close>
  "tally ok err n mockResults =
     \<lparr>success = ok,
      total_vessels = n,
      violations = js_count (\<lambda>r. js_truthy (js_get r ''illegal_fishing'')) mockResults,
      mpa_violations =
        js_count (\<lambda>r. js_truthy (js_and (js_get r ''in_mpa'') (js_get r ''illegal_fishing''))) mockResults,
      eez_violations =
        js_count (\<lambda>r. js_truthy (js_and (js_and (js_get r ''in_eez'') (js_get r ''illegal_fishing''))
                                        (JBool (\<not> js_truthy (js_get r ''in_mpa''))))) mockResults,
      processing_time = JStr ''0.00s'',
      results = mockResults,
      error = err\<rparr>"

definition checkZone_single_try ::
  "(jsval \<Rightarrow> js_error + jsval) \<Rightarrow> (nat \<Rightarrow> real) \<Rightarrow> jsval list \<Rightarrow> (js_error + ZoneCheckResponse) \<times> nat" where
  "checkZone_single_try checkZoneViolations rnd d =
     (case d of
        [] \<Rightarrow> (Inl (Error ''No vessel data to check''), 0)
      | firstVessel # _ \<Rightarrow>
          if \<not> js_truthy firstVessel \<or>
             \<not> isValidCoordinate (js_get firstVessel ''latitude'') (js_get firstVessel ''longitude'')
          then (Inl (Error ''Invalid coordinates in vessel data''), 0)
          else
            (case checkZoneViolations
                    (JObj [(''latitude'', JNum (js_Number (js_get firstVessel ''latitude''))),
                           (''longitude'', JNum (js_Number (js_get firstVessel ''longitude'')))]) of
               Inl e \<Rightarrow> (Inl e, 0)
             | Inr result \<Rightarrow>
                 (case map_rand (mockFromResult rnd result) 0 d 0 of
                    (Inl e, i) \<Rightarrow> (Inl e, i)
                  | (Inr mockResults, i) \<Rightarrow> (Inr (tally True None (length d) mockResults), i))))"

definition checkZone_single ::
  "(jsval \<Rightarrow> js_error + jsval) \<Rightarrow> (nat \<Rightarrow> real) \<Rightarrow> jsval list \<Rightarrow> js_error + ZoneCheckResponse" where
  "checkZone_single checkZoneViolations rnd d =
     (case checkZone_single_try checkZoneViolations rnd d of
        (Inr r, _) \<Rightarrow> Inr r
      | (Inl err, i) \<Rightarrow>
          (case map_rand (mockFallback rnd) 0 d i of
             (Inl e, _) \<Rightarrow> Inl e
           | (Inr mockResults, _) \<Rightarrow>
               Inr (tally False (Some (error_message err)) (length d) mockResults)))"

section \<open>Export\<close>

definition csvCell :: "jsval \<Rightarrow> string" where
  \<comment> \<open>one cell: objects as JSON, every quote doubled, the whole in quotes\<close>
  "csvCell v =
     (let cellValue = (if js_typeof v = ''object'' then JStr (JSON_stringify v) else v)
      in [dquote] @ concat (map (\<lambda>c. if c = dquote then [dquote, dquote] else [c]) (js_String cellValue))
         @ [dquote])"

definition csvRow :: "string list \<Rightarrow> jsval \<Rightarrow> js_error + string" where
  \<comment> \<open>the function that \<open>convertToCSV\<close> maps over the records\<close>
  "csvRow headers obj =
     (case map_err (\<lambda>header. map_sum id csvCell (js_prop obj header)) headers of
        Inl e \<Rightarrow> Inl e
      | Inr cells \<Rightarrow> Inr (js_join '','' cells))"

definition convertToCSV :: "jsval \<Rightarrow> js_error + string" where
  "convertToCSV d =
     (case d of
        JArr (d0 # ds) \<Rightarrow>
          (case js_keys d0 of
             Inl e \<Rightarrow> Inl e
           | Inr headers \<Rightarrow>
               (case map_err (csvRow headers) (d0 # ds) of
                  Inl e \<Rightarrow> Inl e
                | Inr rows \<Rightarrow> Inr (js_join [CHR 0x0A] (js_join '','' headers # rows))))
      | _ \<Rightarrow> Inr [])"

record DownloadOptions =
  filename :: string
  ftype :: "string option"
  includeTimestamp :: "bool option"

record download =
  file_name :: string
  file_content :: string
  file_type :: string

definition downloadFile :: "string \<Rightarrow> string \<Rightarrow> string \<Rightarrow> download" where
  \<comment> \<open>the file handed to the browser: the content after a byte-order mark\<close>
  "downloadFile fname content mimeType =
     \<lparr>file_name = fname,
      file_content = [CHR 0xEF, CHR 0xBB, CHR 0xBF] @ content,
      file_type = mimeType @ '';charset=utf-8''\<rparr>"

text \<open>
  \<open>today\<close> is the date part of \<open>new Date().toISOString()\<close>, and \<open>json_pretty\<close> is
  \<open>JSON.stringify(data, null, 2)\<close>.
\<close>

definition downloadData ::
  "(jsval \<Rightarrow> js_error + string) \<Rightarrow> string \<Rightarrow> jsval \<Rightarrow> DownloadOptions \<Rightarrow> js_error + download" where
  "downloadData json_pretty today d options =
     (case (let timestamp = (if includeTimestamp options = Some True then ''_'' @ today else []);
                fname = filename options @ timestamp
            in if ftype options = Some ''csv'' then
                 (case convertToCSV d of
                    Inl e \<Rightarrow> Inl e
                  | Inr content \<Rightarrow> Inr (downloadFile (fname @ ''.csv'') content ''text/csv''))
               else
                 (case json_pretty d of
                    Inl e \<Rightarrow> Inl e
                  | Inr content \<Rightarrow> Inr (downloadFile (fname @ ''.json'') content ''application/json''))) of
        Inl e \<Rightarrow> Inl (Error ''Failed to download data'')
      | Inr f \<Rightarrow> Inr f)"

section \<open>The zone violation page\<close>

record LocalZoneResults =
  local_total_vessels :: nat
  local_violations :: jsval
  local_mpa_violations :: jsval
  local_eez_violations :: jsval
  local_results :: "jsval list"

definition mapDetail :: "jsval \<Rightarrow> js_error + jsval" where
  \<comment> \<open>the function that \<open>mapApiResponseToLocalFormat\<close> maps over the results\<close>
  "mapDetail detail =
     (case js_prop detail ''vessel_id'' of
        Inl e \<Rightarrow> Inl e
      | Inr vid \<Rightarrow>
          (case js_prop (js_get detail ''location'') ''0'' of
             Inl e \<Rightarrow> Inl e
           | Inr lat \<Rightarrow>
               Inr (JObj [(''vessel_id'', vid),
                          (''timestamp'', js_get detail ''timestamp''),
                          (''latitude'', lat),
                          (''longitude'', js_get (js_get detail ''location'') ''1''),
                          (''behavior'', js_or (js_get detail ''details'') (JStr ''unknown'')),
                          (''in_mpa'', JBool (js_get detail ''zone_type'' = JStr ''mpa'')),
                          (''in_eez'', JBool (js_get detail ''zone_type'' = JStr ''eez'')),
                          (''in_port'', JBool False),
                          (''risk_level'', js_get detail ''severity''),
                          (''illegal_fishing'', JBool (js_get detail ''severity'' = JStr ''high''))])))"

definition mapApiResponseToLocalFormat :: "ZoneCheckResponse \<Rightarrow> js_error + LocalZoneResults" where
  "mapApiResponseToLocalFormat response =
     (case map_err mapDetail (results response) of
        Inl e \<Rightarrow> Inl e
      | Inr ds \<Rightarrow>
          Inr \<lparr>local_total_vessels = total_vessels response,
               local_violations = violations response,
               local_mpa_violations = mpa_violations response,
               local_eez_violations = eez_violations response,
               local_results = ds\<rparr>)"

definition handleExport ::
  "(jsval \<Rightarrow> js_error + string) \<Rightarrow> string \<Rightarrow> LocalZoneResults option \<Rightarrow> string
     \<Rightarrow> (js_error + download) option" where
  \<comment> \<open>\<open>None\<close>: nothing is exported\<close>
  "handleExport json_pretty today zoneResults format =
     (case zoneResults of
        None \<Rightarrow> None
      | Some zr \<Rightarrow>
          if local_results zr = [] then None
          else Some (downloadData json_pretty today (JArr (local_results zr))
                       \<lparr>filename = ''zone-violations-'' @ today, ftype = Some format,
                        includeTimestamp = Some True\<rparr>))"

subsection \<open>Reading the CSV text\<close>

definition js_index :: "string list \<Rightarrow> nat \<Rightarrow> jsval" where
  \<comment> \<open>\<open>values[i]\<close>\<close>
  "js_index values i = (if i < length values then JStr (values ! i) else JUndefined)"

definition parseLine :: "string list \<Rightarrow> nat \<Rightarrow> nat \<Rightarrow> string \<Rightarrow> jsval option" where
  \<comment> \<open>the function that \<open>handleZoneCheck\<close> maps over the data lines; \<open>None\<close> is \<open>null\<close>\<close>
  "parseLine headers latIndex lonIndex line =
     (let values = map js_trim (js_split CHR '','' line) in
      if length values \<noteq> length headers then None
      else
        (let lat = js_Number (js_index values latIndex);
             lon = js_Number (js_index values lonIndex)
         in if isNaN lat \<or> isNaN lon then None
            else if js_lt lat (Fin (- 90)) \<or> js_gt lat (Fin 90) \<or>
                    js_lt lon (Fin (- 180)) \<or> js_gt lon (Fin 180) then None
            else Some (JObj (js_assign []
                   (map (\<lambda>(index, header).
                           (header,
                            if header = ''latitude'' \<or> header = ''longitude''
                            then JNum (js_Number (js_index values index))
                            else js_index values index))
                        (enumerate 0 headers))))))"

datatype parse_outcome = Toast string | Thrown js_error | Parsed "jsval list"

text \<open>
  The part of \<open>handleZoneCheck\<close> before the request: from the text of the input field to
  the vessel list handed to \<open>checkZone\<close>. \<open>Toast\<close> is an early return after a message,
  \<open>Thrown\<close> a throw caught at the end of the handler. The messages shown for single
  rejected lines are left out.
\<close>

definition handleZoneCheck_parse :: "string \<Rightarrow> parse_outcome" where
  "handleZoneCheck_parse csvData =
     (if js_trim csvData = [] then Toast ''Please enter or upload vessel data''
      else
        (let lines = js_split (CHR 0x0A) (js_trim csvData) in
         if length lines < 2 then Thrown (Error ''CSV file is empty or contains only headers'')
         else
           (let headers = map (\<lambda>h. toLowerCase (js_trim h)) (js_split CHR '','' (lines ! 0)) in
            case (indexOf headers ''latitude'', indexOf headers ''longitude'') of
              (Some latIndex, Some lonIndex) \<Rightarrow>
                (let d = List.map_filter (parseLine headers latIndex lonIndex) (drop 1 lines) in
                 if d = [] then Toast ''No valid vessel data found in CSV'' else Parsed d)
            | _ \<Rightarrow> Toast ''CSV must contain 'latitude' and 'longitude' columns'')))"

section \<open>Normalising AIS rows\<close>

definition determineBehavior :: "jsval \<Rightarrow> string" where
  "determineBehavior d =
     (let speed = js_Number (js_get d ''SPEED'') in
      if isNaN speed then ''unknown''
      else if js_lt speed (Fin 0.5) then ''stopped''
      else if js_lt speed (Fin 3) then ''fishing''
      else if js_lt speed (Fin 8) then ''maneuvering''
      else ''transit'')"

definition opt_toString :: "jsval \<Rightarrow> jsval" where
  \<comment> \<open>\<open>v?.toString()\<close>\<close>
  "opt_toString v = (if js_nullish v then JUndefined else JStr (js_String v))"

definition num_or_undefined :: "jsval \<Rightarrow> jsval" where
  \<comment> \<open>\<open>Number(v) || undefined\<close>\<close>
  "num_or_undefined v = js_or (JNum (js_Number v)) JUndefined"

definition normalizeRow :: "jsval \<Rightarrow> js_error + jsval option" where
  \<comment> \<open>the function that \<open>processVesselData\<close> maps over the rows; \<open>None\<close> is \<open>null\<close>\<close>
  "normalizeRow row =
     (case js_prop row ''LAT'' of
        Inl e \<Rightarrow> Inl e
      | Inr lat0 \<Rightarrow>
          (let latitude = js_Number (js_coalesce lat0 (js_get row ''LATITUDE''));
               longitude = js_Number (js_coalesce (js_get row ''LON'') (js_get row ''LONGITUDE''))
           in if isNaN latitude \<or> isNaN longitude \<or>
                 js_lt latitude (Fin (- 90)) \<or> js_gt latitude (Fin 90) \<or>
                 js_lt longitude (Fin (- 180)) \<or> js_gt longitude (Fin 180)
              then Inr None
              else Inr (Some (JObj
                [(''vessel_id'',
                    js_or (opt_toString (js_get row ''MMSI'')) (opt_toString (js_get row ''VESSEL_NAME''))),
                 (''latitude'', JNum latitude),
                 (''longitude'', JNum longitude),
                 (''speed'', num_or_undefined (js_get row ''SPEED'')),
                 (''course'', num_or_undefined (js_get row ''COURSE'')),
                 (''heading'', num_or_undefined (js_get row ''HEADING'')),
                 (''timestamp'', js_get row ''TIMESTAMP''),
                 (''vessel_type'', js_get row ''VESSEL_TYPE''),
                 (''flag'', js_get row ''FLAG''),
                 (''dimensions'',
                    JObj [(''length'', num_or_undefined (js_get row ''LENGTH'')),
                          (''width'', num_or_undefined (js_get row ''WIDTH'')),
                          (''draught'', num_or_undefined (js_get row ''DRAUGHT''))]),
                 (''status'', js_get row ''STATUS''),
                 (''behavior'', JStr (determineBehavior row))]))))"

text \<open>
  \<open>fetched\<close> is the outcome of the first part of \<open>processVesselData\<close>, the download and
  the decoding of the file by its type: a throw or the decoded \<open>data\<close>.
\<close>

definition processVesselData :: "js_error + jsval \<Rightarrow> js_error + jsval list" where
  "processVesselData fetched =
     (case (case fetched of
              Inl e \<Rightarrow> Inl e
            | Inr d \<Rightarrow>
                (case d of
                   JArr rows \<Rightarrow>
                     (case map_err normalizeRow rows of
                        Inl e \<Rightarrow> Inl e
                      | Inr vs \<Rightarrow> Inr (List.map_filter id vs))
                 | _ \<Rightarrow> Inl (TypeError ''data.map is not a function''))) of
        Inl e \<Rightarrow> Inl (Error (''Failed to process vessel data: '' @ error_message e))
      | Inr vs \<Rightarrow> Inr vs)"

section \<open>The coordinate invariant\<close>

definition in_range :: "jsval \<Rightarrow> bool" where
  \<comment> \<open>a record whose latitude and longitude are finite numbers within the bounds\<close>
  "in_range v =
     (\<exists>lat lon. js_get v ''latitude'' = JNum (Fin lat) \<and> js_get v ''longitude'' = JNum (Fin lon)
        \<and> - 90 \<le> lat \<and> lat \<le> 90 \<and> - 180 \<le> lon \<and> lon \<le> 180)"

definition csvHeaders :: "string \<Rightarrow> string list" where
  \<comment> \<open>the header cells that \<open>handleZoneCheck\<close> reads off the first line\<close>
  "csvHeaders csvData =
     map (\<lambda>h. toLowerCase (js_trim h)) (js_split CHR '','' (js_split (CHR 0x0A) (js_trim csvData) ! 0))"

section \<open>Concrete inputs\<close>

text \<open>The inputs at which the theorems below are instantiated.\<close>

definition always_rejects :: "js_error \<Rightarrow> nat \<Rightarrow> (js_error + jsval) \<times> nat" where
  \<comment> \<open>an underlying call that rejects with the same error every time; the state counts the calls\<close>
  "always_rejects e n = (Inl e, Suc n)"

definition always_resolves :: "jsval \<Rightarrow> nat \<Rightarrow> (js_error + jsval) \<times> nat" where
  "always_resolves v n = (Inr v, Suc n)"

definition backend_answers :: "js_error + jsval \<Rightarrow> jsval \<Rightarrow> js_error + jsval" where
  \<comment> \<open>an API client with the same outcome for every request\<close>
  "backend_answers out req = out"

definition rnd_const :: "real \<Rightarrow> nat \<Rightarrow> real" where
  \<comment> \<open>a random source that returns the same number at every call\<close>
  "rnd_const x i = x"

definition vessel_at :: "string \<Rightarrow> real \<Rightarrow> real \<Rightarrow> jsval" where
  "vessel_at name lat lon =
     JObj [(''vessel_id'', JStr name), (''latitude'', JNum (Fin lat)), (''longitude'', JNum (Fin lon))]"


definition unauthorized :: js_error where
  "unauthorized = ApiError (mkApiError ''Unauthorized access'' (Some 401) None None None)"

definition no_json :: "jsval \<Rightarrow> js_error + string" where
  \<comment> \<open>a JSON printer for the exports that do not use one\<close>
  "no_json d = Inr []"

definition partial_response :: jsval where
  \<comment> \<open>an answer of the service with one result and its own count\<close>
  "partial_response =
     JObj [(''violations'', JNum (Fin 5)),
           (''results'', JArr [JObj [(''vessel_id'', JStr ''V1''), (''severity'', JStr ''low'')]])]"

definition text_rows :: jsval where
  \<comment> \<open>rows whose coordinates are numeric texts\<close>
  "text_rows = JArr [JObj [(''latitude'', JStr ''45''), (''longitude'', JStr ''10'')]]"

definition exported_record :: jsval where
  \<comment> \<open>a result record with the three fields that a vessel input needs\<close>
  "exported_record =
     JObj [(''vessel_id'', JStr ''V1''), (''latitude'', JNum (Fin 10)), (''longitude'', JNum (Fin 20))]"

section \<open>Properties of the retry policy\<close>

lemma retryRequest_fail_fast:
  assumes "fn s = (Inl (ApiError e), s')"
    and "status e = Some 400 \<or> status e = Some 401 \<or> status e = Some 403 \<or> retries \<le> 0"
  shows "retryRequest fn retries delay s = (Inl (ApiError e), s', [Attempt])"
  using assms by (subst retryRequest.simps) auto


lemma retryRequest_value:
  assumes "fn s = (Inr v, s')"
  shows "retryRequest fn retries delay s = (Inr v, s', [Attempt])"
  using assms by (subst retryRequest.simps) auto

lemma retryRequest_other_error:
  assumes "fn s = (Inl err, s')" and "\<forall>e. err \<noteq> ApiError e"
  shows "retryRequest fn retries delay s = (Inl err, s', [Attempt])"
  using assms by (subst retryRequest.simps) (auto split: js_error.splits)



text \<open>
  C4. When the underlying call rejects with an \<open>ApiError\<close> of status 400, 401 or 403,
  \<open>retryRequest\<close> calls it once, waits for nothing and rethrows that error, whatever
  the number of retries left.
\<close>

theorem no_retry_on_client_error:
  assumes "fn s = (Inl (ApiError e), s')"
    and "status e = Some 400 \<or> status e = Some 401 \<or> status e = Some 403"
  shows "\<exists>evs. retryRequest fn retries delay s = (Inl (ApiError e), s', evs)
           \<and> attempts evs = 1 \<and> delays evs = []"
proof -
  have "retryRequest fn retries delay s = (Inl (ApiError e), s', [Attempt])"
    using assms by (intro retryRequest_fail_fast) auto
  then show ?thesis by (simp add: attempts_def)
qed

theorem no_retry_on_client_error_witness:
  "attempts (snd (snd (retryRequest (always_rejects unauthorized) MAX_RETRIES INITIAL_RETRY_DELAY 0))) = 1
   \<and> fst (retryRequest (always_rejects unauthorized) MAX_RETRIES INITIAL_RETRY_DELAY 0) = Inl unauthorized"
proof -
  have h1: "always_rejects unauthorized 0 =
      (Inl (ApiError (mkApiError ''Unauthorized access'' (Some 401) None None None)), Suc 0)"
    by (simp add: always_rejects_def unauthorized_def)
  have h2: "status (mkApiError ''Unauthorized access'' (Some 401) None None None) = Some 400
     \<or> status (mkApiError ''Unauthorized access'' (Some 401) None None None) = Some 401
     \<or> status (mkApiError ''Unauthorized access'' (Some 401) None None None) = Some 403"
    by (simp add: mkApiError_def)
  from no_retry_on_client_error [where fn = "always_rejects unauthorized" and s = 0
      and retries = MAX_RETRIES and delay = INITIAL_RETRY_DELAY, OF h1 h2]
  show ?thesis by (auto simp: unauthorized_def)
qed

section \<open>Properties of the cache\<close>

lemma cache_set_then_get:
  "ApiCache_get key now (ApiCache_set key v ttl t0 cache) =
     (if now > t0 + ttl then (None, cache(key := None))
      else (Some v, ApiCache_set key v ttl t0 cache))"
  by (simp add: ApiCache_get_def ApiCache_set_def)

text \<open>
  C6. For a key stored with a value and an expiry instant, a read strictly after the
  expiry instant returns nothing and removes the entry; a read at or before it returns
  the stored value and leaves the cache as it was.
\<close>

theorem cache_read_expiry:
  assumes "cache key = Some \<lparr>data = v, timestamp = expiry\<rparr>"
  shows "(now > expiry \<longrightarrow> ApiCache_get key now cache = (None, cache(key := None)))
       \<and> (now \<le> expiry \<longrightarrow> ApiCache_get key now cache = (Some v, cache))"
  using assms by (simp add: ApiCache_get_def)

theorem cache_read_expiry_witness:
  "ApiCache_get ''k'' 101 [''k'' \<mapsto> \<lparr>data = JNum (Fin 7), timestamp = 100\<rparr>] = (None, Map.empty)
   \<and> ApiCache_get ''k'' 100 [''k'' \<mapsto> \<lparr>data = JNum (Fin 7), timestamp = 100\<rparr>]
       = (Some (JNum (Fin 7)), [''k'' \<mapsto> \<lparr>data = JNum (Fin 7), timestamp = 100\<rparr>])"
proof -
  have h: "[''k'' \<mapsto> \<lparr>data = JNum (Fin 7), timestamp = (100::int)\<rparr>] ''k''
             = Some \<lparr>data = JNum (Fin 7), timestamp = 100\<rparr>"
    by simp
  from cache_read_expiry [where cache = "[''k'' \<mapsto> \<lparr>data = JNum (Fin 7), timestamp = 100\<rparr>]"
         and key = "''k''" and now = 101, OF h]
       cache_read_expiry [where cache = "[''k'' \<mapsto> \<lparr>data = JNum (Fin 7), timestamp = 100\<rparr>]"
         and key = "''k''" and now = 100, OF h]
  show ?thesis by simp
qed
section \<open>Properties of the validation of fetched rows\<close>

lemma js_typeof_number: "js_typeof x = ''number'' \<Longrightarrow> \<exists>n. x = JNum n"
  by (cases x) simp_all

lemma isValidCoordinate_numbers:
  "isValidCoordinate (JNum a) (JNum b) =
     (js_ge a (Fin (- 90)) \<and> js_le a (Fin 90) \<and> js_ge b (Fin (- 180)) \<and> js_le b (Fin 180))"
  by (cases a; cases b) (auto simp: isValidCoordinate_def isNaN_def js_ge_def)

lemma validateVessel_imp_valid:
  assumes "validateVessel v"
  shows "isValidCoordinate (js_get v ''latitude'') (js_get v ''longitude'')"
proof -
  from assms obtain a b where ab: "js_get v ''latitude'' = JNum a" "js_get v ''longitude'' = JNum b"
    unfolding validateVessel_def by (meson js_typeof_number)
  with assms show ?thesis
    by (simp add: validateVessel_def isValidCoordinate_numbers)
qed

lemma validateVessel_on_numbers:
  assumes "js_truthy v" "js_typeof (js_get v ''latitude'') = ''number''"
    "js_typeof (js_get v ''longitude'') = ''number''"
  shows "validateVessel v = isValidCoordinate (js_get v ''latitude'') (js_get v ''longitude'')"
proof -
  from assms obtain a b where ab: "js_get v ''latitude'' = JNum a" "js_get v ''longitude'' = JNum b"
    by (meson js_typeof_number)
  with assms show ?thesis
    by (simp add: validateVessel_def isValidCoordinate_numbers)
qed

lemma fetchCSV_invalid:
  assumes "cache (''csv-'' @ url) = None"
    and "retryRequest get MAX_RETRIES INITIAL_RETRY_DELAY s = (Inr response, s', evs)"
    and "js_prop response ''data'' = Inr body" and "js_prop body ''csv_data'' = Inr d"
    and "\<not> validateVesselData d"
  shows "fetchCSV get url now now' s cache =
           (Inl (ApiError (mkApiError ''Invalid vessel data format in CSV'' (Some 400)
                  (Some ''INVALID_DATA_FORMAT'') (Some url)
                  (Some ''Please ensure the CSV file contains required vessel data fields in the correct format''))),
            s', cache)"
  using assms by (simp add: fetchCSV_def ApiCache_get_def)

lemma fetchCSV_valid:
  assumes "cache (''csv-'' @ url) = None"
    and "retryRequest get MAX_RETRIES INITIAL_RETRY_DELAY s = (Inr response, s', evs)"
    and "js_prop response ''data'' = Inr body" and "js_prop body ''csv_data'' = Inr d"
    and "validateVesselData d"
  shows "fetchCSV get url now now' s cache =
           (Inr d, s', ApiCache_set (''csv-'' @ url) d CACHE_TTL now' cache)"
  using assms by (simp add: fetchCSV_def ApiCache_get_def)

lemma fetchCSV_miss_returns_valid:
  assumes "cache (''csv-'' @ url) = None"
    and "fetchCSV get url now now' s cache = (Inr d, s', cache')"
  shows "\<exists>rows. d = JArr rows
           \<and> (\<forall>v\<in>set rows. validateVessel v
                  \<and> isValidCoordinate (js_get v ''latitude'') (js_get v ''longitude''))"
proof -
  from assms have "validateVesselData d"
    by (auto simp: fetchCSV_def ApiCache_get_def split: prod.splits sum.splits if_splits)
  then obtain rows where "d = JArr rows" "list_all validateVessel rows"
    by (auto simp: validateVesselData_def split: jsval.splits)
  then show ?thesis
    by (auto simp: list_all_iff validateVessel_imp_valid)
qed

text \<open>
  C5, as the code has it. The check of \<open>fetchCSV\<close> is \<open>validateVesselData\<close>, which does
  not call \<open>isValidCoordinate\<close>: it accepts a row when the row is truthy, both coordinates
  have the type \<open>number\<close> and both are in range. Every row it accepts is accepted by
  \<open>isValidCoordinate\<close>, and on rows whose coordinates are numbers the two agree. A list
  with a row it rejects fails the whole fetch with the \<open>ApiError\<close> of status 400 and code
  \<open>INVALID_DATA_FORMAT\<close>, and nothing is cached; the rows of a fetch that succeeds
  on a cache miss are accepted by both.
\<close>

theorem fetch_validation:
  "(validateVessel v \<longrightarrow> isValidCoordinate (js_get v ''latitude'') (js_get v ''longitude''))
   \<and> (js_truthy v \<and> js_typeof (js_get v ''latitude'') = ''number''
        \<and> js_typeof (js_get v ''longitude'') = ''number''
      \<longrightarrow> validateVessel v = isValidCoordinate (js_get v ''latitude'') (js_get v ''longitude''))
   \<and> (cache (''csv-'' @ url) = None
        \<and> retryRequest get MAX_RETRIES INITIAL_RETRY_DELAY s = (Inr response, s', evs)
        \<and> js_prop response ''data'' = Inr body \<and> js_prop body ''csv_data'' = Inr (JArr rows)
        \<and> \<not> list_all validateVessel rows
      \<longrightarrow> (\<exists>e. fetchCSV get url now now' s cache = (Inl (ApiError e), s', cache)
               \<and> status e = Some 400 \<and> code e = Some ''INVALID_DATA_FORMAT''))
   \<and> (cache (''csv-'' @ url) = None \<and> fetchCSV get url now now' s cache = (Inr d, s'', cache')
      \<longrightarrow> (\<exists>returned. d = JArr returned
             \<and> (\<forall>x\<in>set returned. validateVessel x
                    \<and> isValidCoordinate (js_get x ''latitude'') (js_get x ''longitude''))))"
proof (intro conjI impI)
  assume "validateVessel v"
  then show "isValidCoordinate (js_get v ''latitude'') (js_get v ''longitude'')"
    by (rule validateVessel_imp_valid)
next
  assume "js_truthy v \<and> js_typeof (js_get v ''latitude'') = ''number''
        \<and> js_typeof (js_get v ''longitude'') = ''number''"
  then show "validateVessel v = isValidCoordinate (js_get v ''latitude'') (js_get v ''longitude'')"
    by (simp add: validateVessel_on_numbers)
next
  assume a: "cache (''csv-'' @ url) = None
        \<and> retryRequest get MAX_RETRIES INITIAL_RETRY_DELAY s = (Inr response, s', evs)
        \<and> js_prop response ''data'' = Inr body \<and> js_prop body ''csv_data'' = Inr (JArr rows)
        \<and> \<not> list_all validateVessel rows"
  then have "\<not> validateVesselData (JArr rows)"
    by (simp add: validateVesselData_def)
  with a have "fetchCSV get url now now' s cache =
           (Inl (ApiError (mkApiError ''Invalid vessel data format in CSV'' (Some 400)
                  (Some ''INVALID_DATA_FORMAT'') (Some url)
                  (Some ''Please ensure the CSV file contains required vessel data fields in the correct format''))),
            s', cache)"
    by (intro fetchCSV_invalid) auto
  then show "\<exists>e. fetchCSV get url now now' s cache = (Inl (ApiError e), s', cache)
               \<and> status e = Some 400 \<and> code e = Some ''INVALID_DATA_FORMAT''"
    by (simp add: mkApiError_def)
next
  assume "cache (''csv-'' @ url) = None \<and> fetchCSV get url now now' s cache = (Inr d, s'', cache')"
  then have m: "cache (''csv-'' @ url) = None" "fetchCSV get url now now' s cache = (Inr d, s'', cache')"
    by simp_all
  show "\<exists>returned. d = JArr returned
             \<and> (\<forall>x\<in>set returned. validateVessel x
                    \<and> isValidCoordinate (js_get x ''latitude'') (js_get x ''longitude''))"
    using m by (rule fetchCSV_miss_returns_valid)
qed

theorem fetch_validation_witness:
  "validateVessel (vessel_at ''V1'' 10 20)
   \<and> isValidCoordinate (js_get (vessel_at ''V1'' 10 20) ''latitude'')
       (js_get (vessel_at ''V1'' 10 20) ''longitude'')
   \<and> fst (fetchCSV (always_resolves (JObj [(''data'', JObj [(''csv_data'', text_rows)])]))
            ''u'' 0 0 0 Map.empty)
       = Inl (ApiError (mkApiError ''Invalid vessel data format in CSV'' (Some 400)
                (Some ''INVALID_DATA_FORMAT'') (Some ''u'')
                (Some ''Please ensure the CSV file contains required vessel data fields in the correct format'')))
   \<and> fst (fetchCSV (always_resolves (JObj [(''data'', JObj [(''csv_data'', JArr [vessel_at ''V1'' 10 20])])]))
            ''u'' 0 0 0 Map.empty)
       = Inr (JArr [vessel_at ''V1'' 10 20])"
proof -
  have v: "validateVessel (vessel_at ''V1'' 10 20)"
    by code_simp
  have r: "retryRequest (always_resolves (JObj [(''data'', JObj [(''csv_data'', text_rows)])]))
             MAX_RETRIES INITIAL_RETRY_DELAY 0
           = (Inr (JObj [(''data'', JObj [(''csv_data'', text_rows)])]), Suc 0, [Attempt])"
    by (rule retryRequest_value) (simp add: always_resolves_def)
  have p1: "js_prop (JObj [(''data'', JObj [(''csv_data'', text_rows)])]) ''data''
           = Inr (JObj [(''csv_data'', text_rows)])"
    by (simp add: js_prop_def js_get_def)
  have p2: "js_prop (JObj [(''csv_data'', text_rows)]) ''csv_data''
           = Inr (JArr [JObj [(''latitude'', JStr ''45''), (''longitude'', JStr ''10'')]])"
    by (simp add: js_prop_def js_get_def text_rows_def)
  have n: "\<not> list_all validateVessel [JObj [(''latitude'', JStr ''45''), (''longitude'', JStr ''10'')]]"
    by code_simp
  have f: "fetchCSV (always_resolves (JObj [(''data'', JObj [(''csv_data'', text_rows)])]))
             ''u'' 0 0 0 Map.empty
           = (Inl (ApiError (mkApiError ''Invalid vessel data format in CSV'' (Some 400)
                (Some ''INVALID_DATA_FORMAT'') (Some ''u'')
                (Some ''Please ensure the CSV file contains required vessel data fields in the correct format''))),
              Suc 0, Map.empty)"
    using r p1 p2 n by (intro fetchCSV_invalid) (auto simp: validateVesselData_def)
  have g: "fetchCSV (always_resolves (JObj [(''data'', JObj [(''csv_data'', JArr [vessel_at ''V1'' 10 20])])]))
             ''u'' 0 0 0 Map.empty
           = (Inr (JArr [vessel_at ''V1'' 10 20]), Suc 0,
              [''csv-u'' \<mapsto> \<lparr>data = JArr [vessel_at ''V1'' 10 20], timestamp = 300000\<rparr>])"
    by (simp add: fetchCSV_def ApiCache_get_def ApiCache_set_def CACHE_TTL_def
          retryRequest.simps [of "always_resolves x" for x] always_resolves_def js_prop_def js_get_def
          validateVesselData_def validateVessel_def vessel_at_def js_ge_def)
  from fetch_validation [where v = "vessel_at ''V1'' 10 20" and cache = Map.empty and url = "''u''"
      and get = "always_resolves (JObj [(''data'', JObj [(''csv_data'', text_rows)])])" and s = 0
      and response = "JObj [(''data'', JObj [(''csv_data'', text_rows)])]" and s' = "Suc 0"
      and evs = "[Attempt]" and body = "JObj [(''csv_data'', text_rows)]"
      and rows = "[JObj [(''latitude'', JStr ''45''), (''longitude'', JStr ''10'')]]"
      and now = 0 and now' = 0 and d = JNull and s'' = 0 and cache' = Map.empty] v f
  have a: "validateVessel (vessel_at ''V1'' 10 20)
   \<and> isValidCoordinate (js_get (vessel_at ''V1'' 10 20) ''latitude'')
       (js_get (vessel_at ''V1'' 10 20) ''longitude'')
   \<and> fst (fetchCSV (always_resolves (JObj [(''data'', JObj [(''csv_data'', text_rows)])]))
            ''u'' 0 0 0 Map.empty)
       = Inl (ApiError (mkApiError ''Invalid vessel data format in CSV'' (Some 400)
                (Some ''INVALID_DATA_FORMAT'') (Some ''u'')
                (Some ''Please ensure the CSV file contains required vessel data fields in the correct format'')))"
    by simp
  from fetch_validation [where v = "vessel_at ''V1'' 10 20" and cache = Map.empty and url = "''u''"
      and get = "always_resolves (JObj [(''data'', JObj [(''csv_data'', JArr [vessel_at ''V1'' 10 20])])])"
      and s = 0 and response = JNull and s' = 0 and evs = "[]" and body = JNull and rows = "[]"
      and now = 0 and now' = 0 and d = "JArr [vessel_at ''V1'' 10 20]" and s'' = "Suc 0"
      and cache' = "[''csv-u'' \<mapsto> \<lparr>data = JArr [vessel_at ''V1'' 10 20], timestamp = 300000\<rparr>]"] g
  have b: "fst (fetchCSV (always_resolves (JObj [(''data'', JObj [(''csv_data'', JArr [vessel_at ''V1'' 10 20])])]))
            ''u'' 0 0 0 Map.empty)
       = Inr (JArr [vessel_at ''V1'' 10 20])"
    by simp
  from a b show ?thesis by simp
qed

text \<open>
  C5 as written fails: \<open>isValidCoordinate\<close> converts with \<open>Number\<close> and accepts
  the texts 45 and 10, \<open>validateVesselData\<close> rejects the row that carries them, and the
  fetch of that row fails.
\<close>

theorem fetch_validation_mismatch:
  "isValidCoordinate (js_get (JObj [(''latitude'', JStr ''45''), (''longitude'', JStr ''10'')]) ''latitude'')
     (js_get (JObj [(''latitude'', JStr ''45''), (''longitude'', JStr ''10'')]) ''longitude'')
   \<and> validateVessel (JObj [(''latitude'', JStr ''45''), (''longitude'', JStr ''10'')]) = False
   \<and> fst (fetchCSV (always_resolves (JObj [(''data'', JObj [(''csv_data'', text_rows)])]))
            ''u'' 0 0 0 Map.empty)
       = Inl (ApiError \<lparr>message = ''Invalid vessel data format in CSV'', status = Some 400,
                code = Some ''INVALID_DATA_FORMAT'', path = Some ''u'',
                suggestion = ''Please ensure the CSV file contains required vessel data fields in the correct format''\<rparr>)"
  by code_simp
section \<open>Properties of the zone check\<close>

lemma map_err_length: "map_err f xs = Inr ys \<Longrightarrow> length ys = length xs"
  by (induction xs arbitrary: ys) (auto split: sum.splits)


lemma map_rand_length: "map_rand f index xs i = (Inr ys, k) \<Longrightarrow> length ys = length xs"
  by (induction xs arbitrary: ys index i k) (auto split: sum.splits prod.splits)


lemma js_prop_defined: "\<not> js_nullish v \<Longrightarrow> js_prop v k = Inr (js_get v k)"
  by (simp add: js_prop_def js_nullish_def)

lemma truthy_not_nullish: "js_truthy v \<Longrightarrow> \<not> js_nullish v"
  by (auto simp: js_nullish_def)

subsection \<open>The batch client\<close>


lemma formatErrorResponse_shape:
  assumes "formatErrorResponse rnd now vessels err = Inr r"
  shows "\<not> success r \<and> total_vessels r = length vessels \<and> error r = Some (error_message err)
         \<and> length (results r) = length vessels
         \<and> violations r = JNum (Fin (real (length (results r))))
         \<and> mpa_violations r =
             js_count (\<lambda>x. js_get x ''zone_type'' = JStr ''mpa'' \<and> js_get x ''severity'' = JStr ''high'')
               (results r)
         \<and> eez_violations r =
             js_count (\<lambda>x. js_get x ''zone_type'' = JStr ''eez'' \<and> js_get x ''severity'' = JStr ''high'')
               (results r)"
  using assms
  by (auto simp: formatErrorResponse_def split: prod.splits sum.splits dest: map_rand_length)


lemma formatAPIResponse_shape:
  assumes "formatAPIResponse now result vessels = Inr r"
  shows "success r \<and> total_vessels r = length vessels \<and> error r = None
         \<and> (\<exists>rs. js_get result ''results'' = JArr rs \<and> map_err (formatResult now) rs = Inr (results r)
                \<and> length (results r) = length rs)
         \<and> violations r = js_or (js_get result ''violations'') (JNum (Fin 0))
         \<and> mpa_violations r = js_or (js_get result ''mpa_violations'') (JNum (Fin 0))
         \<and> eez_violations r = js_or (js_get result ''eez_violations'') (JNum (Fin 0))"
  using assms
  by (auto simp: formatAPIResponse_def split: if_splits jsval.splits sum.splits dest: map_err_length)


lemma checkZone_try_shape:
  assumes "checkZone_try api now vessels = Inr r"
  shows "success r \<and> total_vessels r = length vessels \<and> error r = None
         \<and> (\<exists>reqs result.
                map_err (\<lambda>(index, vessel). vesselRequest vessel index) (enumerate 0 vessels) = Inr reqs
              \<and> api (JObj [(''vessels'', JArr reqs)]) = Inr result
              \<and> (\<exists>rs. js_get result ''results'' = JArr rs
                     \<and> map_err (formatResult now) rs = Inr (results r)
                     \<and> length (results r) = length rs)
              \<and> violations r = js_or (js_get result ''violations'') (JNum (Fin 0))
              \<and> mpa_violations r = js_or (js_get result ''mpa_violations'') (JNum (Fin 0))
              \<and> eez_violations r = js_or (js_get result ''eez_violations'') (JNum (Fin 0)))"
proof -
  from assms obtain reqs result where
    m: "map_err (\<lambda>(index, vessel). vesselRequest vessel index) (enumerate 0 vessels) = Inr reqs"
    and a: "api (JObj [(''vessels'', JArr reqs)]) = Inr result"
    and f: "formatAPIResponse now result vessels = Inr r"
    by (auto simp: checkZone_try_def split: if_splits sum.splits)
  note F = formatAPIResponse_shape [OF f]
  have body: "map_err (\<lambda>(index, vessel). vesselRequest vessel index) (enumerate 0 vessels) = Inr reqs
              \<and> api (JObj [(''vessels'', JArr reqs)]) = Inr result
              \<and> (\<exists>rs. js_get result ''results'' = JArr rs
                     \<and> map_err (formatResult now) rs = Inr (results r)
                     \<and> length (results r) = length rs)
              \<and> violations r = js_or (js_get result ''violations'') (JNum (Fin 0))
              \<and> mpa_violations r = js_or (js_get result ''mpa_violations'') (JNum (Fin 0))
              \<and> eez_violations r = js_or (js_get result ''eez_violations'') (JNum (Fin 0))"
    using m a F by simp
  have "\<exists>reqs result.
                map_err (\<lambda>(index, vessel). vesselRequest vessel index) (enumerate 0 vessels) = Inr reqs
              \<and> api (JObj [(''vessels'', JArr reqs)]) = Inr result
              \<and> (\<exists>rs. js_get result ''results'' = JArr rs
                     \<and> map_err (formatResult now) rs = Inr (results r)
                     \<and> length (results r) = length rs)
              \<and> violations r = js_or (js_get result ''violations'') (JNum (Fin 0))
              \<and> mpa_violations r = js_or (js_get result ''mpa_violations'') (JNum (Fin 0))
              \<and> eez_violations r = js_or (js_get result ''eez_violations'') (JNum (Fin 0))"
    by (rule exI [of _ reqs], rule exI [of _ result], rule body)
  with F show ?thesis by simp
qed



subsection \<open>The single-coordinate client\<close>


lemma tally_fields:
  "success (tally ok err n ys) = ok \<and> error (tally ok err n ys) = err
   \<and> total_vessels (tally ok err n ys) = n \<and> results (tally ok err n ys) = ys
   \<and> violations (tally ok err n ys) = js_count (\<lambda>r. js_truthy (js_get r ''illegal_fishing'')) ys"
  by (simp add: tally_def)

lemma checkZone_single_try_shape:
  assumes "checkZone_single_try api rnd d = (Inr r, i)"
  shows "\<exists>ys. r = tally True None (length d) ys \<and> length ys = length d"
proof -
  from assms obtain result ys where
    "map_rand (mockFromResult rnd result) 0 d 0 = (Inr ys, i)"
    and "r = tally True None (length d) ys"
    by (auto simp: checkZone_single_try_def simp del: map_rand.simps
          split: list.splits if_splits sum.splits prod.splits)
  then show ?thesis using map_rand_length by blast
qed

lemma checkZone_single_shape:
  assumes "checkZone_single api rnd d = Inr r"
  shows "\<exists>ok err ys. r = tally ok err (length d) ys \<and> length ys = length d"
proof (cases "checkZone_single_try api rnd d")
  case (Pair out i)
  show ?thesis
  proof (cases out)
    case (Inr r')
    with Pair assms have "r' = r" by (simp add: checkZone_single_def)
    with checkZone_single_try_shape Pair Inr show ?thesis by blast
  next
    case (Inl err)
    with Pair assms obtain ys k where
      "map_rand (mockFallback rnd) 0 d i = (Inr ys, k)"
      and "r = tally False (Some (error_message err)) (length d) ys"
      by (auto simp: checkZone_single_def split: sum.splits prod.splits)
    then show ?thesis using map_rand_length by blast
  qed
qed


subsection \<open>Result lists, tallies and totality\<close>




text \<open>
  C2, as the code has it. On the success path of the batch client the three tallies are
  the fields of the service's answer (0 where a field is missing or falsy). On its failure
  path \<open>violations\<close> is the length of the result list, each synthesized entry counting
  as one, and the two other tallies count the results of that zone type with severity
  \<open>high\<close>. The single-coordinate client computes its tallies from its result list:
  \<open>violations\<close> is the number of results whose \<open>illegal_fishing\<close> is truthy.
\<close>

theorem tallies_of_the_zone_check:
  "(checkZone api rnd now vessels = Inr r \<and> success r
    \<longrightarrow> (\<exists>reqs result.
             map_err (\<lambda>(index, vessel). vesselRequest vessel index) (enumerate 0 vessels) = Inr reqs
           \<and> api (JObj [(''vessels'', JArr reqs)]) = Inr result
           \<and> violations r = js_or (js_get result ''violations'') (JNum (Fin 0))
           \<and> mpa_violations r = js_or (js_get result ''mpa_violations'') (JNum (Fin 0))
           \<and> eez_violations r = js_or (js_get result ''eez_violations'') (JNum (Fin 0))))
   \<and> (checkZone api rnd now vessels = Inr r \<and> \<not> success r
    \<longrightarrow> violations r = JNum (Fin (real (length (results r))))
        \<and> mpa_violations r =
            js_count (\<lambda>x. js_get x ''zone_type'' = JStr ''mpa'' \<and> js_get x ''severity'' = JStr ''high'')
              (results r)
        \<and> eez_violations r =
            js_count (\<lambda>x. js_get x ''zone_type'' = JStr ''eez'' \<and> js_get x ''severity'' = JStr ''high'')
              (results r))
   \<and> (checkZone_single api' rnd d = Inr r'
    \<longrightarrow> violations r' = js_count (\<lambda>x. js_truthy (js_get x ''illegal_fishing'')) (results r'))"
proof -
  have ok: "\<exists>reqs result.
             map_err (\<lambda>(index, vessel). vesselRequest vessel index) (enumerate 0 vessels) = Inr reqs
           \<and> api (JObj [(''vessels'', JArr reqs)]) = Inr result
           \<and> violations r = js_or (js_get result ''violations'') (JNum (Fin 0))
           \<and> mpa_violations r = js_or (js_get result ''mpa_violations'') (JNum (Fin 0))
           \<and> eez_violations r = js_or (js_get result ''eez_violations'') (JNum (Fin 0))"
    if a: "checkZone api rnd now vessels = Inr r" "success r"
  proof (cases "checkZone_try api now vessels")
    case (Inr r0)
    with a have "r0 = r" by (simp add: checkZone_def)
    with checkZone_try_shape [OF Inr] show ?thesis by blast
  next
    case (Inl err)
    with a have "formatErrorResponse rnd now vessels err = Inr r" by (simp add: checkZone_def)
    from formatErrorResponse_shape [OF this] a show ?thesis by simp
  qed
  have failed: "violations r = JNum (Fin (real (length (results r))))
        \<and> mpa_violations r =
            js_count (\<lambda>x. js_get x ''zone_type'' = JStr ''mpa'' \<and> js_get x ''severity'' = JStr ''high'')
              (results r)
        \<and> eez_violations r =
            js_count (\<lambda>x. js_get x ''zone_type'' = JStr ''eez'' \<and> js_get x ''severity'' = JStr ''high'')
              (results r)"
    if a: "checkZone api rnd now vessels = Inr r" "\<not> success r"
  proof (cases "checkZone_try api now vessels")
    case (Inr r0)
    with a have "r0 = r" by (simp add: checkZone_def)
    with checkZone_try_shape [OF Inr] a show ?thesis by simp
  next
    case (Inl err)
    with a have "formatErrorResponse rnd now vessels err = Inr r" by (simp add: checkZone_def)
    from formatErrorResponse_shape [OF this] show ?thesis by simp
  qed
  have single: "violations r' = js_count (\<lambda>x. js_truthy (js_get x ''illegal_fishing'')) (results r')"
    if "checkZone_single api' rnd d = Inr r'"
  proof -
    from checkZone_single_shape [OF that] obtain ok err ys where "r' = tally ok err (length d) ys"
      by blast
    then show ?thesis by (simp add: tally_fields)
  qed
  from ok failed single show ?thesis by blast
qed

theorem tallies_of_the_zone_check_witness:
  "violations (projr (checkZone (backend_answers (Inr partial_response)) (rnd_const 1) ''T''
      [vessel_at ''V1'' 10 20])) = JNum (Fin 5)
   \<and> violations (projr (checkZone (backend_answers (Inl (Error ''Network Error''))) (rnd_const 0) ''T''
      [vessel_at ''V1'' 10 20])) = JNum (Fin 1)
   \<and> length (results (projr (checkZone (backend_answers (Inl (Error ''Network Error''))) (rnd_const 0) ''T''
      [vessel_at ''V1'' 10 20]))) = 1
   \<and> violations (projr (checkZone_single (backend_answers (Inr (JObj [(''is_violation'', JBool True)])))
      (rnd_const 1) [vessel_at ''V1'' 10 20])) = JNum (Fin 1)"
proof -
  have e1: "checkZone (backend_answers (Inr partial_response)) (rnd_const 1) ''T'' [vessel_at ''V1'' 10 20]
           = Inr \<lparr>success = True, total_vessels = 1, violations = JNum (Fin 5),
               mpa_violations = JNum (Fin 0), eez_violations = JNum (Fin 0),
               processing_time = JStr ''0.00s'',
               results = [JObj [(''vessel_id'', JStr ''V1''), (''zone_type'', JStr ''mpa''),
                                (''timestamp'', JStr ''T''), (''location'', JArr [JNum (Fin 0), JNum (Fin 0)]),
                                (''severity'', JStr ''low''), (''details'', JStr [])]],
               error = None\<rparr>"
    by code_simp
  have e2: "checkZone (backend_answers (Inl (Error ''Network Error''))) (rnd_const 0) ''T''
             [vessel_at ''V1'' 10 20]
           = Inr \<lparr>success = False, total_vessels = 1, violations = JNum (Fin 1),
               mpa_violations = JNum (Fin 0), eez_violations = JNum (Fin 0),
               processing_time = JStr ''0.00s'',
               results = [JObj [(''vessel_id'', JStr ''V1''), (''zone_type'', JStr ''eez''),
                                (''timestamp'', JStr ''T''), (''location'', JArr [JNum (Fin 20), JNum (Fin 10)]),
                                (''severity'', JStr ''low''), (''details'', JStr ''Mock EEZ violation'')]],
               error = Some ''Network Error''\<rparr>"
    by code_simp
  have e3: "checkZone_single (backend_answers (Inr (JObj [(''is_violation'', JBool True)]))) (rnd_const 1)
             [vessel_at ''V1'' 10 20]
           = Inr \<lparr>success = True, total_vessels = 1, violations = JNum (Fin 1),
               mpa_violations = JNum (Fin 1), eez_violations = JNum (Fin 0),
               processing_time = JStr ''0.00s'',
               results = [JObj [(''vessel_id'', JStr ''V1''), (''latitude'', JNum (Fin 10)),
                                (''longitude'', JNum (Fin 20)), (''in_mpa'', JBool True),
                                (''in_eez'', JBool True), (''in_port'', JBool True),
                                (''illegal_fishing'', JBool True), (''risk_level'', JStr ''high'')]],
               error = None\<rparr>"
    by code_simp
  from tallies_of_the_zone_check [where api = "backend_answers (Inr partial_response)"
      and rnd = "rnd_const 1" and now = "''T''" and vessels = "[vessel_at ''V1'' 10 20]"
      and r = "\<lparr>success = True, total_vessels = 1, violations = JNum (Fin 5),
               mpa_violations = JNum (Fin 0), eez_violations = JNum (Fin 0),
               processing_time = JStr ''0.00s'',
               results = [JObj [(''vessel_id'', JStr ''V1''), (''zone_type'', JStr ''mpa''),
                                (''timestamp'', JStr ''T''), (''location'', JArr [JNum (Fin 0), JNum (Fin 0)]),
                                (''severity'', JStr ''low''), (''details'', JStr [])]],
               error = None\<rparr>"
      and api' = "backend_answers (Inr (JObj [(''is_violation'', JBool True)]))"
      and d = "[vessel_at ''V1'' 10 20]"
      and r' = "\<lparr>success = True, total_vessels = 1, violations = JNum (Fin 1),
               mpa_violations = JNum (Fin 1), eez_violations = JNum (Fin 0),
               processing_time = JStr ''0.00s'',
               results = [JObj [(''vessel_id'', JStr ''V1''), (''latitude'', JNum (Fin 10)),
                                (''longitude'', JNum (Fin 20)), (''in_mpa'', JBool True),
                                (''in_eez'', JBool True), (''in_port'', JBool True),
                                (''illegal_fishing'', JBool True), (''risk_level'', JStr ''high'')]],
               error = None\<rparr>"]
    e1 e3
  have a: "violations (projr (checkZone (backend_answers (Inr partial_response)) (rnd_const 1) ''T''
      [vessel_at ''V1'' 10 20])) = JNum (Fin 5)
    \<and> violations (projr (checkZone_single (backend_answers (Inr (JObj [(''is_violation'', JBool True)])))
      (rnd_const 1) [vessel_at ''V1'' 10 20])) = JNum (Fin 1)"
    by simp
  from tallies_of_the_zone_check [where api = "backend_answers (Inl (Error ''Network Error''))"
      and rnd = "rnd_const 0" and now = "''T''" and vessels = "[vessel_at ''V1'' 10 20]"
      and r = "\<lparr>success = False, total_vessels = 1, violations = JNum (Fin 1),
               mpa_violations = JNum (Fin 0), eez_violations = JNum (Fin 0),
               processing_time = JStr ''0.00s'',
               results = [JObj [(''vessel_id'', JStr ''V1''), (''zone_type'', JStr ''eez''),
                                (''timestamp'', JStr ''T''), (''location'', JArr [JNum (Fin 20), JNum (Fin 10)]),
                                (''severity'', JStr ''low''), (''details'', JStr ''Mock EEZ violation'')]],
               error = Some ''Network Error''\<rparr>"
      and api' = "backend_answers (Inr JNull)" and d = "[]" and r' = "tally False None 0 []"] e2
  have b: "violations (projr (checkZone (backend_answers (Inl (Error ''Network Error''))) (rnd_const 0) ''T''
      [vessel_at ''V1'' 10 20])) = JNum (Fin 1)
   \<and> length (results (projr (checkZone (backend_answers (Inl (Error ''Network Error''))) (rnd_const 0) ''T''
      [vessel_at ''V1'' 10 20]))) = 1"
    by simp
  from a b show ?thesis by simp
qed

text \<open>
  C2 as written fails on both paths of the batch client. On the success path the
  count 5 of the service is passed on beside a single result of severity \<open>low\<close>; on the
  failure path one synthesized result of severity \<open>low\<close> is counted as one violation.
  The page reads \<open>illegal_fishing\<close> off the severity, so neither result is flagged.
\<close>

theorem tallies_not_recomputed:
  "checkZone (backend_answers (Inr partial_response)) (rnd_const 0) ''T'' [vessel_at ''V1'' 10 20]
   = Inr \<lparr>success = True, total_vessels = 1, violations = JNum (Fin 5),
           mpa_violations = JNum (Fin 0), eez_violations = JNum (Fin 0),
           processing_time = JStr ''0.00s'',
           results = [JObj [(''vessel_id'', JStr ''V1''), (''zone_type'', JStr ''mpa''),
                            (''timestamp'', JStr ''T''), (''location'', JArr [JNum (Fin 0), JNum (Fin 0)]),
                            (''severity'', JStr ''low''), (''details'', JStr [])]],
           error = None\<rparr>
   \<and> mapDetail (JObj [(''vessel_id'', JStr ''V1''), (''zone_type'', JStr ''mpa''),
                      (''timestamp'', JStr ''T''), (''location'', JArr [JNum (Fin 0), JNum (Fin 0)]),
                      (''severity'', JStr ''low''), (''details'', JStr [])])
     = Inr (JObj [(''vessel_id'', JStr ''V1''), (''timestamp'', JStr ''T''),
                  (''latitude'', JNum (Fin 0)), (''longitude'', JNum (Fin 0)),
                  (''behavior'', JStr ''unknown''), (''in_mpa'', JBool True), (''in_eez'', JBool False),
                  (''in_port'', JBool False), (''risk_level'', JStr ''low''),
                  (''illegal_fishing'', JBool False)])
   \<and> checkZone (backend_answers (Inl (Error ''Network Error''))) (rnd_const 0) ''T''
       [vessel_at ''V1'' 10 20]
     = Inr \<lparr>success = False, total_vessels = 1, violations = JNum (Fin 1),
             mpa_violations = JNum (Fin 0), eez_violations = JNum (Fin 0),
             processing_time = JStr ''0.00s'',
             results = [JObj [(''vessel_id'', JStr ''V1''), (''zone_type'', JStr ''eez''),
                              (''timestamp'', JStr ''T''), (''location'', JArr [JNum (Fin 20), JNum (Fin 10)]),
                              (''severity'', JStr ''low''), (''details'', JStr ''Mock EEZ violation'')]],
             error = Some ''Network Error''\<rparr>
   \<and> mapDetail (JObj [(''vessel_id'', JStr ''V1''), (''zone_type'', JStr ''eez''),
                      (''timestamp'', JStr ''T''), (''location'', JArr [JNum (Fin 20), JNum (Fin 10)]),
                      (''severity'', JStr ''low''), (''details'', JStr ''Mock EEZ violation'')])
     = Inr (JObj [(''vessel_id'', JStr ''V1''), (''timestamp'', JStr ''T''),
                  (''latitude'', JNum (Fin 20)), (''longitude'', JNum (Fin 10)),
                  (''behavior'', JStr ''Mock EEZ violation''), (''in_mpa'', JBool False),
                  (''in_eez'', JBool True), (''in_port'', JBool False), (''risk_level'', JStr ''low''),
                  (''illegal_fishing'', JBool False)])"
  by code_simp



text \<open>
  An entry \<open>null\<close> is no vessel: the check in the \<open>try\<close> block throws on it, and so does
  the fallback, which rejects the promise.
\<close>

lemma checkZone_rejects_null_entry:
  "checkZone (backend_answers (Inr partial_response)) (rnd_const 0) ''T'' [JNull]
   = Inl (TypeError ''Cannot read properties of null (reading vessel_id)'')"
  by code_simp
section \<open>Properties of the export\<close>

lemma not_ws_dquote: "\<not> is_ws dquote"
  by (simp add: is_ws_def dquote_def)

lemma dropWhile_snoc: "\<not> P c \<Longrightarrow> dropWhile P (xs @ [c]) = dropWhile P xs @ [c]"
  by (induction xs) auto

lemma js_trim_keeps_head: "\<not> is_ws c \<Longrightarrow> \<exists>s'. js_trim (c # s) = c # s'"
  by (simp add: js_trim_def dropWhile_snoc)

lemma not_digit_dquote: "\<not> is_digit dquote"
  by code_simp

text \<open>A text that begins with a double quote is no numeric literal.\<close>

lemma StringToNumber_quoted: "StringToNumber (dquote # s) = NaN"
proof -
  from js_trim_keeps_head [OF not_ws_dquote] obtain s' where t: "js_trim (dquote # s) = dquote # s'"
    by blast
  have d: "takeWhile is_digit (dquote # s') = []" "dropWhile is_digit (dquote # s') = dquote # s'"
    by (simp_all add: not_digit_dquote)
  have q: "dquote \<noteq> CHR ''.''" "dquote \<noteq> CHR ''e''" "dquote \<noteq> CHR ''E''" "dquote \<noteq> CHR ''-''"
    "dquote \<noteq> CHR ''+''" "dquote \<noteq> CHR ''0''" "dquote \<noteq> CHR ''I''"
    by (simp_all add: dquote_def)
  have "parse_unsigned_decimal (dquote # s') = NaN"
    unfolding parse_unsigned_decimal_def Let_def d using q by simp
  moreover have "parse_unsigned (dquote # s') = parse_unsigned_decimal (dquote # s')"
    using q by (simp add: parse_unsigned_def)
  moreover have "StringToNumber (dquote # s) = parse_unsigned (dquote # s')"
    unfolding StringToNumber_def Let_def t using q by simp
  ultimately show ?thesis by simp
qed

lemma js_split_no_sep: "sep \<notin> set w \<Longrightarrow> js_split sep w = [w]"
  by (induction w) auto

lemma js_split_append: "sep \<notin> set w \<Longrightarrow> js_split sep (w @ sep # rest) = w # js_split sep rest"
  by (induction w) auto

lemma js_split_join:
  "cells \<noteq> [] \<Longrightarrow> \<forall>c\<in>set cells. sep \<notin> set c \<Longrightarrow> js_split sep (js_join [sep] cells) = cells"
proof (induction "[sep]" cells rule: js_join.induct)
  case 1
  then show ?case by simp
next
  case (2 x)
  then show ?case by (simp add: js_split_no_sep)
next
  case (3 x y ys)
  then show ?case by (simp add: js_split_append)
qed

lemma map_err_Inr_map:
  "(\<And>x. x \<in> set xs \<Longrightarrow> f x = Inr (g x)) \<Longrightarrow> map_err f xs = Inr (map g xs)"
  by (induction xs) auto

lemma csvRow_cells:
  assumes "csvRow keys obj = Inr line" "keys \<noteq> []"
  shows "line = js_join '','' (map (\<lambda>k. csvCell (js_get obj k)) keys)"
proof -
  have "\<not> js_nullish obj"
  proof
    assume "js_nullish obj"
    with assms(2) have "\<exists>e. csvRow keys obj = Inl e"
      by (cases keys) (auto simp: csvRow_def js_prop_def js_nullish_def)
    with assms(1) show False by simp
  qed
  then have "map_err (\<lambda>header. map_sum id csvCell (js_prop obj header)) keys
               = Inr (map (\<lambda>k. csvCell (js_get obj k)) keys)"
    by (intro map_err_Inr_map) (simp add: js_prop_defined)
  with assms(1) show ?thesis by (simp add: csvRow_def)
qed

lemma csvCell_quoted: "\<exists>body. csvCell v = dquote # body \<and> last (csvCell v) = dquote"
  by (simp add: csvCell_def Let_def)

lemma quoted_cell_is_NaN:
  assumes "\<forall>c\<in>set cells. \<exists>b. c = dquote # b"
  shows "js_Number (js_index (map js_trim cells) i) = NaN"
proof (cases "i < length cells")
  case True
  with assms obtain b where "cells ! i = dquote # b" by (meson nth_mem)
  moreover from js_trim_keeps_head [OF not_ws_dquote] obtain s' where "js_trim (dquote # b) = dquote # s'"
    by blast
  ultimately show ?thesis using True
    by (simp add: js_index_def StringToNumber_quoted)
next
  case False
  then show ?thesis by (simp add: js_index_def)
qed

lemma parseLine_quoted:
  assumes "cells \<noteq> []" "\<forall>c\<in>set cells. CHR '','' \<notin> set c" "\<forall>c\<in>set cells. \<exists>b. c = dquote # b"
  shows "parseLine headers latIndex lonIndex (js_join '','' cells) = None"
proof -
  have "js_split CHR '','' (js_join '','' cells) = cells"
    using js_split_join [OF assms(1,2)] by simp
  then show ?thesis
    by (simp add: parseLine_def Let_def quoted_cell_is_NaN [OF assms(3)] isNaN_def)
qed

lemma js_trim_snoc: "\<not> is_ws c \<Longrightarrow> js_trim (xs @ [c]) = dropWhile is_ws (xs @ [c])"
  by (simp add: js_trim_def dropWhile_snoc)

lemma js_trim_ends_nonws:
  assumes "s \<noteq> []" "\<not> is_ws (last s)"
  shows "js_trim s = dropWhile is_ws s"
proof -
  from assms(1) have "s = butlast s @ [last s]" by simp
  then show ?thesis using js_trim_snoc [OF assms(2), of "butlast s"] by simp
qed

lemma js_join_set: "set (js_join sep xs) \<subseteq> set sep \<union> \<Union> (set ` set xs)"
  by (induction sep xs rule: js_join.induct) auto

lemma js_join_hd:
  "xs \<noteq> [] \<Longrightarrow> hd xs \<noteq> [] \<Longrightarrow> js_join sep xs \<noteq> [] \<and> hd (js_join sep xs) = hd (hd xs)"
  by (induction sep xs rule: js_join.induct) auto

lemma js_join_last:
  "xs \<noteq> [] \<Longrightarrow> last xs \<noteq> [] \<Longrightarrow> js_join sep xs \<noteq> [] \<and> last (js_join sep xs) = last (last xs)"
  by (induction sep xs rule: js_join.induct) auto


lemma is_ws_LF: "is_ws (CHR 0x0A)"
  by (simp add: is_ws_def)

text \<open>
  A data row of the export, with at least one column and no comma inside a cell, is
  rejected by the reader whatever the header is: its cells, the latitude among them, are
  quoted texts, which \<open>Number\<close> turns into \<open>NaN\<close>.
\<close>

lemma exported_row_is_rejected:
  assumes "csvRow keys obj = Inr line" and "keys \<noteq> []"
    and "\<forall>k\<in>set keys. CHR '','' \<notin> set (csvCell (js_get obj k))"
  shows "parseLine headers latIndex lonIndex line = None"
proof -
  let ?cells = "map (\<lambda>k. csvCell (js_get obj k)) keys"
  have "line = js_join '','' ?cells"
    using csvRow_cells [OF assms(1,2)] .
  moreover have "parseLine headers latIndex lonIndex (js_join '','' ?cells) = None"
    using assms(2,3) csvCell_quoted by (intro parseLine_quoted) auto
  ultimately show ?thesis by simp
qed

lemma csvRow_shape:
  assumes "csvRow keys obj = Inr line" and "keys \<noteq> []"
    and "\<forall>k\<in>set keys. CHR 0x0A \<notin> set (csvCell (js_get obj k))"
  shows "line \<noteq> [] \<and> hd line = dquote \<and> last line = dquote \<and> CHR 0x0A \<notin> set line"
proof -
  let ?cells = "map (\<lambda>k. csvCell (js_get obj k)) keys"
  have line: "line = js_join '','' ?cells"
    using csvRow_cells [OF assms(1,2)] .
  have ne: "?cells \<noteq> []" using assms(2) by simp
  obtain b where b: "hd ?cells = dquote # b"
    using csvCell_quoted assms(2) by (metis (no_types, lifting) hd_map)
  have l: "last ?cells \<noteq> [] \<and> last (last ?cells) = dquote"
    using csvCell_quoted assms(2) by (metis (no_types, lifting) last_map list.distinct(1))
  from js_join_hd [OF ne, of "'',''"] b have "line \<noteq> [] \<and> hd line = dquote"
    by (simp add: line)
  moreover from js_join_last [OF ne, of "'',''"] l have "last line = dquote"
    by (simp add: line)
  moreover have "CHR 0x0A \<notin> set line"
    using js_join_set [of "'',''" ?cells] assms(3) by (auto simp: line)
  ultimately show ?thesis by simp
qed

lemma export_lines:
  assumes ne: "rows \<noteq> []"
    and rows: "\<forall>r\<in>set rows. r \<noteq> [] \<and> hd r = dquote \<and> last r = dquote \<and> CHR 0x0A \<notin> set r"
    and hdr: "CHR 0x0A \<notin> set hdr"
  shows "set (drop 1 (js_split (CHR 0x0A) (js_trim (js_join [CHR 0x0A] (hdr # rows))))) \<subseteq> set rows"
proof -
  let ?R = "js_join [CHR 0x0A] rows"
  from ne rows have h: "hd rows \<noteq> []" and l: "last rows \<noteq> []"
    by (simp_all add: hd_in_set)
  from js_join_hd [OF ne h] ne rows have R1: "?R \<noteq> []" "hd ?R = dquote"
    by (simp_all add: hd_in_set)
  from js_join_last [OF ne l] ne rows have R2: "last ?R = dquote"
    by simp
  have t_eq: "js_join [CHR 0x0A] (hdr # rows) = hdr @ CHR 0x0A # ?R"
    using ne by (cases rows) simp_all
  have split: "js_split (CHR 0x0A) ?R = rows"
    using js_split_join [OF ne] rows by blast
  have "js_trim (hdr @ CHR 0x0A # ?R) = dropWhile is_ws (hdr @ CHR 0x0A # ?R)"
    using R1 R2 not_ws_dquote by (intro js_trim_ends_nonws) simp_all
  then have trim: "js_trim (js_join [CHR 0x0A] (hdr # rows)) = dropWhile is_ws (hdr @ CHR 0x0A # ?R)"
    by (simp add: t_eq)
  have R3: "dropWhile is_ws ?R = ?R"
    using R1 not_ws_dquote by (cases ?R) auto
  show ?thesis
  proof (cases "\<forall>c\<in>set hdr. is_ws c")
    case True
    then have "dropWhile is_ws (hdr @ CHR 0x0A # ?R) = ?R"
      by (simp add: is_ws_LF R3)
    with trim split show ?thesis
      by (simp add: set_drop_subset)
  next
    case False
    then have "dropWhile is_ws (hdr @ CHR 0x0A # ?R) = dropWhile is_ws hdr @ CHR 0x0A # ?R"
      by (auto simp: dropWhile_append1)
    moreover have "CHR 0x0A \<notin> set (dropWhile is_ws hdr)"
      using hdr set_dropWhileD by fastforce
    ultimately have "js_split (CHR 0x0A) (js_trim (js_join [CHR 0x0A] (hdr # rows)))
        = dropWhile is_ws hdr # rows"
      using trim split by (simp add: js_split_append)
    then show ?thesis by simp
  qed
qed

lemma map_filter_nonempty:
  "List.map_filter f xs \<noteq> [] \<Longrightarrow> \<exists>x\<in>set xs. f x \<noteq> None"
  by (induction xs) (auto simp: List.map_filter_simps split: option.splits)

lemma parse_needs_accepted_line:
  assumes "handleZoneCheck_parse csv = Parsed d"
  shows "\<exists>hs li lo. \<exists>l\<in>set (drop 1 (js_split (CHR 0x0A) (js_trim csv))). parseLine hs li lo l \<noteq> None"
proof -
  from assms obtain hs li lo where
    "List.map_filter (parseLine hs li lo) (drop 1 (js_split (CHR 0x0A) (js_trim csv))) \<noteq> []"
    by (auto simp: handleZoneCheck_parse_def Let_def split: if_splits option.splits)
  from map_filter_nonempty [OF this] show ?thesis by blast
qed

lemma map_err_Inr_each:
  "map_err f xs = Inr ys \<Longrightarrow> y \<in> set ys \<Longrightarrow> \<exists>x\<in>set xs. f x = Inr y"
  by (induction xs arbitrary: ys) (auto split: sum.splits)

text \<open>
  C7, as the code has it. \<open>convertToCSV\<close> wraps every cell of a data row in double
  quotes, and the reader of the CSV text does not take quotes off. For a non-empty list
  of records with at least one column, no line break in a column name and neither comma
  nor line break in a cell, the reader accepts no row of the exported text: what it
  returns is never a list of vessels, so no vessel identifier, latitude or longitude
  comes back.
\<close>

theorem export_is_never_read_back:
  assumes conv: "convertToCSV (JArr (r0 # rest)) = Inr text"
    and keys: "js_keys r0 = Inr keys" "keys \<noteq> []" "\<forall>k\<in>set keys. CHR 0x0A \<notin> set k"
    and cells: "\<forall>obj\<in>set (r0 # rest). \<forall>k\<in>set keys.
                  CHR '','' \<notin> set (csvCell (js_get obj k)) \<and> CHR 0x0A \<notin> set (csvCell (js_get obj k))"
  shows "handleZoneCheck_parse text \<noteq> Parsed d"
proof
  assume p: "handleZoneCheck_parse text = Parsed d"
  from conv keys(1) obtain rows where
    rows: "map_err (csvRow keys) (r0 # rest) = Inr rows"
    and t_eq: "text = js_join [CHR 0x0A] (js_join '','' keys # rows)"
    by (auto simp: convertToCSV_def split: sum.splits)
  from map_err_length [OF rows] have ne: "rows \<noteq> []" by auto
  have each: "\<exists>obj\<in>set (r0 # rest). csvRow keys obj = Inr r" if "r \<in> set rows" for r
    using map_err_Inr_each [OF rows that] .
  have shape: "\<forall>r\<in>set rows. r \<noteq> [] \<and> hd r = dquote \<and> last r = dquote \<and> CHR 0x0A \<notin> set r"
  proof
    fix r assume "r \<in> set rows"
    from each [OF this] obtain obj where o: "obj \<in> set (r0 # rest)" "csvRow keys obj = Inr r" by blast
    with cells have "\<forall>k\<in>set keys. CHR 0x0A \<notin> set (csvCell (js_get obj k))" by blast
    from csvRow_shape [OF o(2) keys(2) this]
    show "r \<noteq> [] \<and> hd r = dquote \<and> last r = dquote \<and> CHR 0x0A \<notin> set r" .
  qed
  have hdr: "CHR 0x0A \<notin> set (js_join '','' keys)"
    using js_join_set [of "'',''" keys] keys(3) by auto
  from parse_needs_accepted_line [OF p] obtain hs li lo l where
    l: "l \<in> set (drop 1 (js_split (CHR 0x0A) (js_trim text)))" "parseLine hs li lo l \<noteq> None"
    by blast
  from l(1) export_lines [OF ne shape hdr] have "l \<in> set rows"
    by (auto simp: t_eq)
  from each [OF this] obtain obj where o: "obj \<in> set (r0 # rest)" "csvRow keys obj = Inr l" by blast
  with cells have "\<forall>k\<in>set keys. CHR '','' \<notin> set (csvCell (js_get obj k))" by blast
  from exported_row_is_rejected [OF o(2) keys(2) this] l(2) show False by simp
qed

theorem export_is_never_read_back_witness:
  "handleZoneCheck_parse
     (''vessel_id,latitude,longitude'' @ [CHR 0x0A] @
      [dquote] @ ''V1'' @ [dquote] @ '','' @ [dquote] @ ''10'' @ [dquote] @ '','' @
      [dquote] @ ''20'' @ [dquote])
   \<noteq> Parsed [exported_record]"
proof -
  have c: "convertToCSV (JArr (exported_record # []))
     = Inr (''vessel_id,latitude,longitude'' @ [CHR 0x0A] @
            [dquote] @ ''V1'' @ [dquote] @ '','' @ [dquote] @ ''10'' @ [dquote] @ '','' @
            [dquote] @ ''20'' @ [dquote])"
    by code_simp
  have k: "js_keys exported_record = Inr [''vessel_id'', ''latitude'', ''longitude'']"
    by code_simp
  have n: "[''vessel_id'', ''latitude'', ''longitude''] \<noteq> []"
    by simp
  have f: "\<forall>k\<in>set [''vessel_id'', ''latitude'', ''longitude'']. CHR 0x0A \<notin> set k"
    by simp
  have g: "\<forall>obj\<in>set (exported_record # []). \<forall>k\<in>set [''vessel_id'', ''latitude'', ''longitude''].
             CHR '','' \<notin> set (csvCell (js_get obj k)) \<and> CHR 0x0A \<notin> set (csvCell (js_get obj k))"
    by code_simp
  from export_is_never_read_back [OF c k n f g] show ?thesis .
qed

text \<open>
  C7 as written fails: the export of one record with the identifier \<open>V1\<close> at
  latitude 10 and longitude 20 is a header line and one line of quoted cells, and the reader
  finds no valid vessel in it.
\<close>

theorem export_is_not_read_back:
  "convertToCSV (JArr [exported_record])
     = Inr (''vessel_id,latitude,longitude'' @ [CHR 0x0A] @
            [dquote] @ ''V1'' @ [dquote] @ '','' @ [dquote] @ ''10'' @ [dquote] @ '','' @
            [dquote] @ ''20'' @ [dquote])
   \<and> handleZoneCheck_parse
       (''vessel_id,latitude,longitude'' @ [CHR 0x0A] @
        [dquote] @ ''V1'' @ [dquote] @ '','' @ [dquote] @ ''10'' @ [dquote] @ '','' @
        [dquote] @ ''20'' @ [dquote])
     = Toast ''No valid vessel data found in CSV''"
  by code_simp

text \<open>
  C8, as the code has it. \<open>convertToCSV\<close> answers the empty collection with the empty
  text, without an error, and \<open>downloadData\<close> then hands over a CSV file that holds the
  byte-order mark only. The export handler of the page does not call it when there are no
  results.
\<close>

theorem empty_export:
  "convertToCSV (JArr []) = Inr []
   \<and> downloadData json_pretty today (JArr [])
        \<lparr>filename = f, ftype = Some ''csv'', includeTimestamp = ts\<rparr>
      = Inr (downloadFile (f @ (if ts = Some True then ''_'' @ today else []) @ ''.csv'') [] ''text/csv'')
   \<and> handleExport json_pretty today
        (Some \<lparr>local_total_vessels = n, local_violations = a, local_mpa_violations = b,
               local_eez_violations = c, local_results = []\<rparr>) fmt = None"
  by (simp add: convertToCSV_def downloadData_def handleExport_def)

theorem empty_export_witness:
  "downloadData no_json ''2024-01-15'' (JArr [])
        \<lparr>filename = ''zone-violations'', ftype = Some ''csv'', includeTimestamp = Some True\<rparr>
      = Inr (downloadFile ''zone-violations_2024-01-15.csv'' [] ''text/csv'')"
  using empty_export [of no_json "''2024-01-15''" "''zone-violations''" "Some True"]
  by simp

text \<open>C8 as written fails: the empty collection is exported as an empty file.\<close>

theorem empty_export_is_no_error:
  "convertToCSV (JArr []) = Inr []
   \<and> downloadData no_json ''2024-01-15'' (JArr [])
        \<lparr>filename = ''zone-violations'', ftype = Some ''csv'', includeTimestamp = Some True\<rparr>
      = Inr \<lparr>file_name = ''zone-violations_2024-01-15.csv'',
              file_content = [CHR 0xEF, CHR 0xBB, CHR 0xBF],
              file_type = ''text/csv;charset=utf-8''\<rparr>"
  by code_simp
section \<open>Coordinates of the vessels that survive\<close>

lemma in_range_finite:
  assumes "\<not> isNaN a" "\<not> js_lt a (Fin lo)" "\<not> js_gt a (Fin hi)"
  shows "\<exists>r. a = Fin r \<and> lo \<le> r \<and> r \<le> hi"
  using assms by (cases a) (auto simp: isNaN_def js_gt_def)

subsection \<open>Normalised AIS rows\<close>

lemma normalizeRow_in_range:
  assumes "normalizeRow row = Inr (Some v)"
  shows "in_range v"
proof -
  define latitude where "latitude = js_Number (js_coalesce (js_get row ''LAT'') (js_get row ''LATITUDE''))"
  define longitude where "longitude = js_Number (js_coalesce (js_get row ''LON'') (js_get row ''LONGITUDE''))"
  from assms have ok: "\<not> isNaN latitude" "\<not> isNaN longitude"
    "\<not> js_lt latitude (Fin (- 90))" "\<not> js_gt latitude (Fin 90)"
    "\<not> js_lt longitude (Fin (- 180))" "\<not> js_gt longitude (Fin 180)"
    and v: "js_get v ''latitude'' = JNum latitude" "js_get v ''longitude'' = JNum longitude"
    by (auto simp: normalizeRow_def js_prop_def latitude_def longitude_def Let_def js_get_def
          split: if_splits)
  from in_range_finite [OF ok(1,3,4)] in_range_finite [OF ok(2,5,6)] v
  show ?thesis by (auto simp: in_range_def)
qed

lemma map_err_map_filter:
  assumes "map_err f xs = Inr os" and "v \<in> set (List.map_filter id os)"
  shows "\<exists>x\<in>set xs. f x = Inr (Some v)"
  using assms
proof (induction xs arbitrary: os)
  case Nil
  then show ?case by (simp add: List.map_filter_simps)
next
  case (Cons x xs)
  then show ?case
    by (auto simp: List.map_filter_simps split: sum.splits option.splits)
qed

text \<open>Every vessel that \<open>processVesselData\<close> returns has its coordinates within the bounds.\<close>

lemma processVesselData_in_range:
  assumes "processVesselData fetched = Inr vs" and "v \<in> set vs"
  shows "in_range v"
proof -
  from assms(1) obtain rows os where m: "map_err normalizeRow rows = Inr os"
    and vs: "vs = List.map_filter id os"
    by (auto simp: processVesselData_def split: sum.splits jsval.splits)
  from assms(2) vs have "v \<in> set (List.map_filter id os)" by simp
  from map_err_map_filter [OF m this] obtain row where "normalizeRow row = Inr (Some v)"
    by blast
  then show ?thesis by (rule normalizeRow_in_range)
qed

subsection \<open>Rows of the CSV text\<close>

lemma js_assign_other:
  "k \<notin> fst ` set kvs \<Longrightarrow> map_of (js_assign ps kvs) k = map_of ps k"
  unfolding js_assign_def
  by (induction kvs arbitrary: ps) (auto simp: update_conv')

lemma js_assign_distinct:
  "distinct (map fst kvs) \<Longrightarrow> (k, v) \<in> set kvs \<Longrightarrow> map_of (js_assign ps kvs) k = Some v"
proof (induction kvs arbitrary: ps)
  case Nil
  then show ?case by simp
next
  case (Cons kv kvs)
  obtain k' v' where kv: "kv = (k', v')" by (cases kv)
  have step: "js_assign ps (kv # kvs) = js_assign (AList.update k' v' ps) kvs"
    by (simp add: js_assign_def kv)
  show ?case
  proof (cases "(k, v) = kv")
    case True
    with Cons.prems kv have "k \<notin> fst ` set kvs" by auto
    with True kv step show ?thesis by (simp add: js_assign_other update_conv')
  next
    case False
    with Cons.prems have "(k, v) \<in> set kvs" "distinct (map fst kvs)" by auto
    with Cons.IH step show ?thesis by simp
  qed
qed

lemma indexOf_Some: "indexOf xs x = Some i \<Longrightarrow> i < length xs \<and> xs ! i = x"
  by (induction xs arbitrary: i) (auto split: if_splits)

lemma parseLine_in_range:
  assumes p: "parseLine headers latIndex lonIndex line = Some v"
    and d: "distinct headers"
    and lat: "indexOf headers ''latitude'' = Some latIndex"
    and lon: "indexOf headers ''longitude'' = Some lonIndex"
  shows "in_range v"
proof -
  let ?vals = "map js_trim (js_split CHR '','' line)"
  define cell where "cell = (\<lambda>(index, header).
       (header, if header = ''latitude'' \<or> header = ''longitude''
                then JNum (js_Number (js_index ?vals index)) else js_index ?vals index))"
  define kvs where "kvs = map cell (enumerate 0 headers)"
  from p have ok: "\<not> isNaN (js_Number (js_index ?vals latIndex))"
      "\<not> isNaN (js_Number (js_index ?vals lonIndex))"
      "\<not> js_lt (js_Number (js_index ?vals latIndex)) (Fin (- 90))"
      "\<not> js_gt (js_Number (js_index ?vals latIndex)) (Fin 90)"
      "\<not> js_lt (js_Number (js_index ?vals lonIndex)) (Fin (- 180))"
      "\<not> js_gt (js_Number (js_index ?vals lonIndex)) (Fin 180)"
    and v: "v = JObj (js_assign [] kvs)"
    by (auto simp: parseLine_def Let_def kvs_def cell_def split: if_splits)
  have keys: "map fst kvs = headers"
    by (simp add: kvs_def cell_def comp_def case_prod_beta)
  from indexOf_Some [OF lat] have "(latIndex, ''latitude'') \<in> set (enumerate 0 headers)"
    by (auto simp: in_set_enumerate_eq)
  then have "cell (latIndex, ''latitude'') \<in> set kvs"
    unfolding kvs_def by simp
  then have a: "(''latitude'', JNum (js_Number (js_index ?vals latIndex))) \<in> set kvs"
    by (simp add: cell_def)
  from indexOf_Some [OF lon] have "(lonIndex, ''longitude'') \<in> set (enumerate 0 headers)"
    by (auto simp: in_set_enumerate_eq)
  then have "cell (lonIndex, ''longitude'') \<in> set kvs"
    unfolding kvs_def by simp
  then have b: "(''longitude'', JNum (js_Number (js_index ?vals lonIndex))) \<in> set kvs"
    by (simp add: cell_def)
  from d keys have dk: "distinct (map fst kvs)" by simp
  have "js_get v ''latitude'' = JNum (js_Number (js_index ?vals latIndex))"
    using js_assign_distinct [OF dk a, of "[]"] by (simp add: v js_get_def)
  moreover have "js_get v ''longitude'' = JNum (js_Number (js_index ?vals lonIndex))"
    using js_assign_distinct [OF dk b, of "[]"] by (simp add: v js_get_def)
  ultimately show ?thesis
    using in_range_finite [OF ok(1,3,4)] in_range_finite [OF ok(2,5,6)]
    by (auto simp: in_range_def)
qed

text \<open>
  When no column name occurs twice in the header, every row that the reader of the CSV
  text accepts has its coordinates within the bounds.
\<close>

lemma handleZoneCheck_parse_in_range:
  assumes "handleZoneCheck_parse csvData = Parsed rows" and "distinct (csvHeaders csvData)"
    and "v \<in> set rows"
  shows "in_range v"
proof -
  define lines where "lines = js_split (CHR 0x0A) (js_trim csvData)"
  from assms(1) obtain latIndex lonIndex where
    lat: "indexOf (csvHeaders csvData) ''latitude'' = Some latIndex"
    and lon: "indexOf (csvHeaders csvData) ''longitude'' = Some lonIndex"
    and rows: "rows = List.map_filter (parseLine (csvHeaders csvData) latIndex lonIndex) (drop 1 lines)"
    by (auto simp: handleZoneCheck_parse_def csvHeaders_def lines_def Let_def
          split: if_splits option.splits)
  from assms(3) rows obtain line where "parseLine (csvHeaders csvData) latIndex lonIndex line = Some v"
    by (auto simp: List.map_filter_def)
  from parseLine_in_range [OF this assms(2) lat lon] show ?thesis .
qed

text \<open>
  C9 at the input on which the code breaks it. With the column \<open>latitude\<close> twice in the
  header, the reader checks the first of the two cells and stores the second: the row is
  accepted and its record carries the latitude 999.
\<close>

theorem duplicate_header_keeps_invalid_latitude:
  "handleZoneCheck_parse (''latitude,latitude,longitude'' @ [CHR 0x0A] @ ''10,999,20'')
     = Parsed [JObj [(''latitude'', JNum (Fin 999)), (''longitude'', JNum (Fin 20))]]"
  by code_simp

end
